theory Spec2Isabelle
  imports Main
begin

section \<open>JavaScript values as the program sees them\<close>

text \<open>
  The program works on the trees that the XML parser returns, typed \<^verbatim>\<open>any\<close> in the
  source. A tree is a JavaScript value: \<^verbatim>\<open>undefined\<close>, a string, a number, a boolean, an
  array, or an object with string keys in insertion order. Reading a property of a node
  can also give an object of the runtime that is no part of the tree, a method or a
  prototype that the node inherits: \<^verbatim>\<open>JNative\<close>, known by the text that \<^verbatim>\<open>String\<close> gives
  for it.

  A number is represented by the text that \<^verbatim>\<open>String(n)\<close> gives for it (\<^verbatim>\<open>3\<close>, \<^verbatim>\<open>0.5\<close>,
  \<^verbatim>\<open>NaN\<close>): the program never calculates with numbers, it only prints them, tests them
  for truthiness and uses them as keys.
\<close>

datatype jsval =
    JUndefined
  | JString string
  | JNumber string
  | JBoolean bool
  | JArray "jsval list"
  | JObject "(string \<times> jsval) list"
  | JNative string

text \<open>The exceptions the program can raise: a \<^verbatim>\<open>TypeError\<close> of the runtime (reading a
  property of \<^verbatim>\<open>undefined\<close>, calling a method that the value does not have) and the
  \<^verbatim>\<open>Error\<close> that \<^verbatim>\<open>processProperty\<close> throws, with its message.\<close>

datatype exn = TypeError | Error string

text \<open>What the program prints with \<^verbatim>\<open>console.error\<close> and \<^verbatim>\<open>console.warn\<close>, one constructor
  per call site, carrying the values that the message interpolates. The progress lines
  that \<^verbatim>\<open>console.log\<close> prints under \<^verbatim>\<open>isVerbose\<close> are not part of the model.\<close>

datatype console_msg =
    ErrorProcessingProperty jsval jsval exn
  | UnknownStructureTypeInFile string
  | UnknownStructureTypeForData string
  | UnknownBuiltIn jsval
  | WarnImagePathNotFound jsval string jsval
  | WarnBuiltInImagePathNotFound string jsval
  | WarnExpectedArray jsval jsval string jsval
  | WarnUnknownCommandType jsval string jsval

type_synonym 'a outcome = "console_msg list \<times> (exn + 'a)"

subsection \<open>Strings\<close>

definition dquote :: string where
  "dquote = [CHR 0x22]"

definition squote :: string where
  "squote = [CHR 0x27]"

definition backslash :: string where
  "backslash = [CHR 0x5C]"

text \<open>\<^verbatim>\<open>" ".repeat(n)\<close> for a count that is a natural number.\<close>

definition spaces :: "nat \<Rightarrow> string" where
  "spaces n = replicate n (CHR '' '')"

text \<open>The decimal text of an array index.\<close>

function decimal :: "nat \<Rightarrow> string" where
  "decimal n = (if n < 10 then [''0123456789'' ! n] else decimal (n div 10) @ [''0123456789'' ! (n mod 10)])"
  by pat_completeness auto
termination
  by (relation "measure id") auto

declare decimal.simps [simp del]

text \<open>\<^verbatim>\<open>xs.join(sep)\<close> on strings.\<close>

fun join :: "string \<Rightarrow> string list \<Rightarrow> string" where
  "join sep [] = []"
| "join sep [x] = x"
| "join sep (x # y # ys) = x @ sep @ join sep (y # ys)"

text \<open>\<^verbatim>\<open>s.split(c)\<close> for a separator of one character: the pieces between the
  separators, never an empty list.\<close>

fun splitOn :: "char \<Rightarrow> string \<Rightarrow> string list" where
  "splitOn c [] = [[]]"
| "splitOn c (x # xs) =
     (if x = c then [] # splitOn c xs
      else (case splitOn c xs of
              [] \<Rightarrow> [[x]]
            | p # ps \<Rightarrow> (x # p) # ps))"

definition startsWith :: "string \<Rightarrow> string \<Rightarrow> bool" where
  "startsWith s p = (take (length p) s = p)"

definition endsWith :: "string \<Rightarrow> string \<Rightarrow> bool" where
  "endsWith s p = (length p \<le> length s \<and> drop (length s - length p) s = p)"

text \<open>\<^verbatim>\<open>s.replace(pat, rep)\<close> with a string pattern: only the first occurrence is
  replaced, wherever it stands.\<close>

fun replaceFirst :: "string \<Rightarrow> string \<Rightarrow> string \<Rightarrow> string" where
  "replaceFirst pat rep [] = (if pat = [] then rep else [])"
| "replaceFirst pat rep (x # xs) =
     (if startsWith (x # xs) pat then rep @ drop (length pat) (x # xs)
      else x # replaceFirst pat rep xs)"

text \<open>\<^verbatim>\<open>s.replace(/"/g, '\\"')\<close>: every double quote gets a backslash before it.\<close>

fun escapeQuotes :: "string \<Rightarrow> string" where
  "escapeQuotes [] = []"
| "escapeQuotes (c # cs) =
     (if c = CHR 0x22 then backslash @ dquote @ escapeQuotes cs else c # escapeQuotes cs)"

subsection \<open>Conversions and property reads\<close>

text \<open>The string that a template literal interpolates for a value. An array prints its
  elements joined by commas, with nothing for an \<^verbatim>\<open>undefined\<close> element; an object of
  the parser prints as \<^verbatim>\<open>[object Object]\<close>.\<close>

fun toStr :: "jsval \<Rightarrow> string" where
  "toStr JUndefined = ''undefined''"
| "toStr (JString s) = s"
| "toStr (JNumber r) = r"
| "toStr (JBoolean b) = (if b then ''true'' else ''false'')"
| "toStr (JArray xs) = join '','' (map (\<lambda>x. if x = JUndefined then [] else toStr x) xs)"
| "toStr (JObject kvs) = ''[object Object]''"
| "toStr (JNative text) = text"

text \<open>The string that \<^verbatim>\<open>join\<close> takes for an element of an array.\<close>

definition elementStr :: "jsval \<Rightarrow> string" where
  "elementStr x = (if x = JUndefined then [] else toStr x)"

text \<open>The test of \<^verbatim>\<open>if (v)\<close>.\<close>

fun truthy :: "jsval \<Rightarrow> bool" where
  "truthy JUndefined = False"
| "truthy (JString s) = (s \<noteq> [])"
| "truthy (JNumber r) = (r \<noteq> ''0'' \<and> r \<noteq> ''NaN'')"
| "truthy (JBoolean b) = b"
| "truthy (JArray xs) = True"
| "truthy (JObject kvs) = True"
| "truthy (JNative text) = True"

fun isArray :: "jsval \<Rightarrow> bool" where
  "isArray (JArray xs) = True"
| "isArray v = False"

text \<open>\<^verbatim>\<open>v[k]\<close> and \<^verbatim>\<open>v.k\<close> for the keys that no value of the runtime has unless a
  parsed node holds them: the keys that the source writes out (\<^verbatim>\<open>Class\<close>, \<^verbatim>\<open>Name\<close>,
  \<^verbatim>\<open>SubType\<close>, \<^verbatim>\<open>UriSource\<close> and so on), which all start with a capital letter, and the
  qualified keys \<^verbatim>\<open>Class.property\<close>, which hold a dot. The members of the built-in
  prototypes start with a small letter or an underscore and hold no dot. Reading a
  property of \<^verbatim>\<open>undefined\<close> throws; an object gives the value stored under the key, or
  \<^verbatim>\<open>undefined\<close>; the other values have no property of such a name.\<close>

fun js_get :: "jsval \<Rightarrow> string \<Rightarrow> exn + jsval" where
  "js_get JUndefined k = Inl TypeError"
| "js_get (JObject kvs) k = (case map_of kvs k of None \<Rightarrow> Inr JUndefined | Some v \<Rightarrow> Inr v)"
| "js_get v k = Inr JUndefined"

text \<open>\<^verbatim>\<open>v[k]\<close> for a key that comes from the schema: the name of a property, or the name
  of a sub-type. Such a key can be the name of a member that the node inherits
  (\<^verbatim>\<open>constructor\<close>, \<^verbatim>\<open>toString\<close>), or \<^verbatim>\<open>length\<close> or an index on a string. What the
  runtime finds under a key that the node itself does not hold is given by a table,
  \<^verbatim>\<open>members\<close>, which the functions below take as a parameter: the set of inherited
  members differs between engines. What it finds is never a node: it is a function or a
  prototype, a number, or a string. (The prototype of an array is itself an array; the
  nodes that are read this way are elements of the arrays of the parser, and those are
  objects or strings.)\<close>

datatype member = MNative string | MNumber string | MString string

fun memberValue :: "member \<Rightarrow> jsval" where
  "memberValue (MNative text) = JNative text"
| "memberValue (MNumber r) = JNumber r"
| "memberValue (MString s) = JString s"

type_synonym members = "jsval \<Rightarrow> string \<Rightarrow> member option"

text \<open>The properties that a node holds itself: the keys of an object, the indices of an
  array.\<close>

fun ownProperty :: "jsval \<Rightarrow> string \<Rightarrow> jsval option" where
  "ownProperty (JObject kvs) k = map_of kvs k"
| "ownProperty (JArray xs) k =
     map_option (\<lambda>i. xs ! i) (find (\<lambda>i. decimal i = k) [0..<length xs])"
| "ownProperty v k = None"

definition js_lookup :: "members \<Rightarrow> jsval \<Rightarrow> string \<Rightarrow> exn + jsval" where
  "js_lookup members v k =
    (if v = JUndefined then Inl TypeError
     else (case ownProperty v k of
             Some x \<Rightarrow> Inr x
           | None \<Rightarrow>
               (case members v k of
                  None \<Rightarrow> Inr JUndefined
                | Some m \<Rightarrow> Inr (memberValue m))))"

text \<open>\<^verbatim>\<open>v[0]\<close>: the first element of an array, the first character of a string.\<close>

fun js_get0 :: "jsval \<Rightarrow> exn + jsval" where
  "js_get0 JUndefined = Inl TypeError"
| "js_get0 (JArray xs) = (case xs of [] \<Rightarrow> Inr JUndefined | x # _ \<Rightarrow> Inr x)"
| "js_get0 (JString s) = (case s of [] \<Rightarrow> Inr JUndefined | c # _ \<Rightarrow> Inr (JString [c]))"
| "js_get0 (JObject kvs) = (case map_of kvs ''0'' of None \<Rightarrow> Inr JUndefined | Some v \<Rightarrow> Inr v)"
| "js_get0 v = Inr JUndefined"

text \<open>\<^verbatim>\<open>v.split(c)\<close>: only a string has the method.\<close>

fun js_split :: "jsval \<Rightarrow> char \<Rightarrow> exn + string list" where
  "js_split (JString s) c = Inr (splitOn c s)"
| "js_split v c = Inl TypeError"

text \<open>\<^verbatim>\<open>parts[parts.length - 1]\<close>: \<^verbatim>\<open>undefined\<close> for the empty array.\<close>

definition lastPart :: "string list \<Rightarrow> jsval" where
  "lastPart parts = (if parts = [] then JUndefined else JString (last parts))"

text \<open>\<^verbatim>\<open>Number(v)\<close>. The trees come from the parser with \<^verbatim>\<open>parseNumbers\<close> applied, which
  has already turned every numeric text into a number, so a string that is left is
  either empty (an empty element), which converts to 0, or not numeric, which converts
  to \<^verbatim>\<open>NaN\<close>. An array converts as the text of its elements joined by commas: as its
  only element when that is a number, to 0 when the text is empty, to \<^verbatim>\<open>NaN\<close>
  otherwise.\<close>

fun js_Number :: "jsval \<Rightarrow> jsval" where
  "js_Number (JNumber r) = JNumber r"
| "js_Number (JString s) = JNumber (if s = [] then ''0'' else ''NaN'')"
| "js_Number (JBoolean b) = JNumber (if b then ''1'' else ''0'')"
| "js_Number (JArray []) = JNumber ''0''"
| "js_Number (JArray [x]) =
     (case x of
        JUndefined \<Rightarrow> JNumber ''0''
      | JNumber r \<Rightarrow> JNumber r
      | JString s \<Rightarrow> JNumber (if s = [] then ''0'' else ''NaN'')
      | JArray ys \<Rightarrow> js_Number (JArray ys)
      | _ \<Rightarrow> JNumber ''NaN'')"
| "js_Number v = JNumber ''NaN''"

subsection \<open>Maps\<close>

text \<open>A JavaScript \<^verbatim>\<open>Map\<close> keeps its entries in insertion order and compares keys by
  value when they are primitive and by identity when they are arrays or objects. Every
  array or object that the program uses as a key is a fresh node of a parsed tree, so
  such a key never equals a key already in the map.\<close>

fun primitive :: "jsval \<Rightarrow> bool" where
  "primitive (JArray xs) = False"
| "primitive (JObject kvs) = False"
| "primitive (JNative text) = False"
| "primitive v = True"

fun Map_set :: "jsval \<Rightarrow> 'v \<Rightarrow> (jsval \<times> 'v) list \<Rightarrow> (jsval \<times> 'v) list" where
  "Map_set k v [] = [(k, v)]"
| "Map_set k v ((k', v') # m) =
     (if primitive k \<and> k' = k then (k, v) # m else (k', v') # Map_set k v m)"

fun Map_get :: "(jsval \<times> 'v) list \<Rightarrow> string \<Rightarrow> 'v option" where
  "Map_get [] k = None"
| "Map_get ((k', v') # m) k = (if k' = JString k then Some v' else Map_get m k)"

section \<open>The schema registry (types.ts)\<close>

datatype NoesisProperty =
    PBoolean
  | PCommand
  | PBrush
  | PFont
  | PString (stringMinWordCount: jsval) (stringMaxWordCount: jsval)
  | PNumber (numberMinValue: jsval) (numberMaxValue: jsval) (numberDecimalCount: jsval)
  | PObject jsval
  | PImage (imageSourcePath: jsval)
  | PEnum jsval
  | PCollection jsval

datatype NoesisStructure =
    Class jsval "(jsval \<times> NoesisProperty) list"
  | Enum jsval "(jsval \<times> jsval) list"
  | BuiltIn jsval

type_synonym NoesisStructureMap = "(jsval \<times> NoesisStructure) list"

fun structure_name :: "NoesisStructure \<Rightarrow> jsval" where
  "structure_name (Class n ps) = n"
| "structure_name (Enum n items) = n"
| "structure_name (BuiltIn n) = n"

definition NoesisBuiltInEnums :: "(string \<times> string list) list" where
  "NoesisBuiltInEnums =
    [(''Visibility'', [''Collapsed'', ''Visible'', ''Hidden'']),
     (''Orientation'', [''Horizontal'', ''Vertical'']),
     (''HorizontalAlignment'', [''Left'', ''Center'', ''Right'', ''Stretch'']),
     (''VerticalAlignment'', [''Top'', ''Center'', ''Bottom'', ''Stretch'']),
     (''TextAlignment'', [''Left'', ''Center'', ''Right'', ''Justify'']),
     (''TextWrapping'', [''NoWrap'', ''Wrap'', ''WrapWithOverflow'']),
     (''TextTrimming'', [''None'', ''CharacterEllipsis'', ''WordEllipsis'']),
     (''FlowDirection'', [''LeftToRight'', ''RightToLeft'']),
     (''FontFamily'', [''Anton'', ''Bangers'', ''Oswald'', ''Roboto'', ''Roboto-Mono''])]"

definition NoesisBuiltInSubTypes :: "string list" where
  "NoesisBuiltInSubTypes =
    [''Single'', ''Boolean'', ''String'', ''Color'', ''BitmapImage'', ''SolidColorBrush'',
     ''MessageCommand'']"

text \<open>Both converters switch on the value and return it unchanged in the default case,
  so they map \<^verbatim>\<open>undefined\<close> to \<^verbatim>\<open>undefined\<close>.\<close>

definition noesisSubtypeToTSConverter :: "jsval \<Rightarrow> jsval" where
  "noesisSubtypeToTSConverter type =
    (if type = JString ''Single'' then JString ''number''
     else if type = JString ''String'' then JString ''string''
     else if type = JString ''Bool'' then JString ''boolean''
     else if type = JString ''ImageSource'' then JString ''string | ImageSource''
     else if type = JString ''Brush'' then JString ''string | Brush''
     else if type = JString ''BaseCommand'' then JString ''(parameter?: unknown) => unknown''
     else type)"

definition noesisSubtypeToNoesisTypeConverter :: "jsval \<Rightarrow> jsval" where
  "noesisSubtypeToNoesisTypeConverter type =
    (if type = JString ''Bool'' then JString ''Boolean''
     else if type = JString ''ImageSource'' then JString ''BitmapImage''
     else if type = JString ''Brush'' then JString ''SolidColorBrush''
     else if type = JString ''BaseCommand'' then JString ''MessageCommand''
     else type)"

section \<open>The schema loader (structures.ts)\<close>

text \<open>\<^verbatim>\<open>processProperty\<close> classifies one property declaration. The array of the parts
  of \<^verbatim>\<open>SubType\<close> is computed before the switch on \<^verbatim>\<open>Type\<close>, so a \<^verbatim>\<open>SubType\<close> that is
  truthy and not a string throws there.\<close>

definition processProperty :: "jsval \<Rightarrow> exn + NoesisProperty" where
  "processProperty property =
    (case js_get property ''SubType'' of
       Inl e \<Rightarrow> Inl e
     | Inr subType \<Rightarrow>
    (case (if truthy subType then js_split subType (CHR ''.'') else Inr []) of
       Inl e \<Rightarrow> Inl e
     | Inr subTypeParts \<Rightarrow>
    (case js_get property ''Type'' of
       Inl e \<Rightarrow> Inl e
     | Inr type \<Rightarrow>
       if type = JString ''Object'' then
         (if subType = JString ''Brush'' then Inr PBrush
          else if subType = JString ''ImageSource'' then
            (case js_get property ''ImageSourcePath'' of
               Inl e \<Rightarrow> Inl e
             | Inr p \<Rightarrow> Inr (PImage p))
          else if subType = JString ''FontFamily'' then Inr PFont
          else Inr (PObject (lastPart subTypeParts)))
       else if type = JString ''Enum'' then Inr (PEnum (lastPart subTypeParts))
       else if type = JString ''String'' then
         (case js_get property ''StringMinWordCount'' of
            Inl e \<Rightarrow> Inl e
          | Inr lo \<Rightarrow>
         (case js_get property ''StringMaxWordCount'' of
            Inl e \<Rightarrow> Inl e
          | Inr hi \<Rightarrow> Inr (PString lo hi)))
       else if type = JString ''Number'' then
         (case js_get property ''NumberMinValue'' of
            Inl e \<Rightarrow> Inl e
          | Inr lo \<Rightarrow>
         (case js_get property ''NumberMaxValue'' of
            Inl e \<Rightarrow> Inl e
          | Inr hi \<Rightarrow>
         (case js_get property ''NumberDecimalCount'' of
            Inl e \<Rightarrow> Inl e
          | Inr d \<Rightarrow> Inr (PNumber lo hi d))))
       else if type = JString ''Boolean'' then Inr PBoolean
       else if type = JString ''Collection'' then Inr (PCollection (lastPart subTypeParts))
       else if type = JString ''Command'' then Inr PCommand
       else Inl (Error (''Unknown property type: '' @ toStr type)))))"

text \<open>The body of the \<^verbatim>\<open>try\<close>/\<^verbatim>\<open>catch\<close> of \<^verbatim>\<open>processClassStructure\<close> for one declaration:
  classify it and store it under its \<^verbatim>\<open>Name\<close>; whatever is thrown is logged with the
  names of the property and of the class. The handler reads \<^verbatim>\<open>prop.Name\<close> itself, and
  what that read throws is not caught.\<close>

definition tryProperty ::
  "jsval \<Rightarrow> jsval \<Rightarrow> (jsval \<times> NoesisProperty) list \<Rightarrow> (jsval \<times> NoesisProperty) list outcome" where
  "tryProperty className prop properties =
    (case (case processProperty prop of
             Inl e \<Rightarrow> Inl e
           | Inr property \<Rightarrow>
               (case js_get prop ''Name'' of
                  Inl e \<Rightarrow> Inl e
                | Inr name \<Rightarrow> Inr (Map_set name property properties))) of
       Inr properties' \<Rightarrow> ([], Inr properties')
     | Inl e \<Rightarrow>
         (case js_get prop ''Name'' of
            Inl e' \<Rightarrow> ([], Inl e')
          | Inr name \<Rightarrow> ([ErrorProcessingProperty name className e], Inr properties)))"

text \<open>\<^verbatim>\<open>data.Class.Property.forEach\<close>.\<close>

fun forEachProperty ::
  "jsval \<Rightarrow> jsval list \<Rightarrow> (jsval \<times> NoesisProperty) list \<Rightarrow> (jsval \<times> NoesisProperty) list outcome" where
  "forEachProperty className [] properties = ([], Inr properties)"
| "forEachProperty className (prop # props) properties =
     (case tryProperty className prop properties of
        (log, Inl e) \<Rightarrow> (log, Inl e)
      | (log, Inr properties') \<Rightarrow>
          (case forEachProperty className props properties' of
             (log', r) \<Rightarrow> (log @ log', r)))"

definition processClassStructure :: "jsval \<Rightarrow> NoesisStructure outcome" where
  "processClassStructure data =
    (case js_get data ''Class'' of
       Inl e \<Rightarrow> ([], Inl e)
     | Inr cls \<Rightarrow>
    (case js_get cls ''Name'' of
       Inl e \<Rightarrow> ([], Inl e)
     | Inr name \<Rightarrow>
    (case js_get cls ''Property'' of
       Inl e \<Rightarrow> ([], Inl e)
     | Inr property \<Rightarrow>
    (case (case property of
             JArray props \<Rightarrow> forEachProperty name props []
           | _ \<Rightarrow> tryProperty name property []) of
       (log, Inl e) \<Rightarrow> (log, Inl e)
     | (log, Inr properties) \<Rightarrow> (log, Inr (Class name properties))))))"

text \<open>\<^verbatim>\<open>data.Enum.Item.forEach\<close>: each item is stored under its \<^verbatim>\<open>Name\<close> with
  \<^verbatim>\<open>Number(item.Value)\<close>.\<close>

fun forEachItem :: "jsval list \<Rightarrow> (jsval \<times> jsval) list \<Rightarrow> exn + (jsval \<times> jsval) list" where
  "forEachItem [] items = Inr items"
| "forEachItem (item # rest) items =
     (case js_get item ''Name'' of
        Inl e \<Rightarrow> Inl e
      | Inr name \<Rightarrow>
     (case js_get item ''Value'' of
        Inl e \<Rightarrow> Inl e
      | Inr v \<Rightarrow> forEachItem rest (Map_set name (js_Number v) items)))"

text \<open>\<^verbatim>\<open>forEach\<close> is a method of arrays only: on any other value of \<^verbatim>\<open>data.Enum.Item\<close>
  the call throws.\<close>

definition processEnumStructure :: "jsval \<Rightarrow> exn + NoesisStructure" where
  "processEnumStructure data =
    (case js_get data ''Enum'' of
       Inl e \<Rightarrow> Inl e
     | Inr enum \<Rightarrow>
    (case js_get enum ''Name'' of
       Inl e \<Rightarrow> Inl e
     | Inr name \<Rightarrow>
    (case js_get enum ''Item'' of
       Inl e \<Rightarrow> Inl e
     | Inr item \<Rightarrow>
    (case item of
       JArray itemList \<Rightarrow>
         (case forEachItem itemList [] of
            Inl e \<Rightarrow> Inl e
          | Inr items \<Rightarrow> Inr (Enum name items))
     | _ \<Rightarrow> Inl TypeError))))"

text \<open>The items of a built-in enum, numbered from \<^verbatim>\<open>index\<close> on.\<close>

fun builtInItems :: "string list \<Rightarrow> nat \<Rightarrow> (jsval \<times> jsval) list \<Rightarrow> (jsval \<times> jsval) list" where
  "builtInItems [] index m = m"
| "builtInItems (item # rest) index m =
     builtInItems rest (Suc index) (Map_set (JString item) (JNumber (decimal index)) m)"

text \<open>\<^verbatim>\<open>addBuiltInEnums\<close> walks \<^verbatim>\<open>Object.entries(NoesisBuiltInEnums)\<close>.\<close>

fun addEnums :: "(string \<times> string list) list \<Rightarrow> NoesisStructureMap \<Rightarrow> NoesisStructureMap" where
  "addEnums [] structures = structures"
| "addEnums ((name, items) # rest) structures =
     addEnums rest (Map_set (JString name) (Enum (JString name) (builtInItems items 0 [])) structures)"

definition addBuiltInEnums :: "NoesisStructureMap \<Rightarrow> NoesisStructureMap" where
  "addBuiltInEnums structures = addEnums NoesisBuiltInEnums structures"

fun addTypes :: "string list \<Rightarrow> NoesisStructureMap \<Rightarrow> NoesisStructureMap" where
  "addTypes [] structures = structures"
| "addTypes (typeName # rest) structures =
     addTypes rest (Map_set (JString typeName) (BuiltIn (JString typeName)) structures)"

definition addBuiltInTypes :: "NoesisStructureMap \<Rightarrow> NoesisStructureMap" where
  "addBuiltInTypes structures = addTypes NoesisBuiltInSubTypes structures"

text \<open>One round of the loop of \<^verbatim>\<open>readStructures\<close> for a file that ends with \<^verbatim>\<open>.xml\<close>,
  given what the parser returned for it: the structure to register, or nothing after
  \<^verbatim>\<open>continue\<close>.\<close>

definition readStructure :: "string \<Rightarrow> jsval \<Rightarrow> NoesisStructure option outcome" where
  "readStructure file result =
    (case js_get result ''Class'' of
       Inl e \<Rightarrow> ([], Inl e)
     | Inr c \<Rightarrow>
       if truthy c then
         (case processClassStructure result of
            (log, Inl e) \<Rightarrow> (log, Inl e)
          | (log, Inr structure) \<Rightarrow> (log, Inr (Some structure)))
       else
         (case js_get result ''Enum'' of
            Inl e \<Rightarrow> ([], Inl e)
          | Inr en \<Rightarrow>
            if truthy en then
              (case processEnumStructure result of
                 Inl e \<Rightarrow> ([], Inl e)
               | Inr structure \<Rightarrow> ([], Inr (Some structure)))
            else ([UnknownStructureTypeInFile file], Inr None)))"

text \<open>The loop over the directory listing, each file paired with its parsed content.
  An exception ends the loop and rejects the promise.\<close>

fun readFiles :: "(string \<times> jsval) list \<Rightarrow> NoesisStructureMap \<Rightarrow> NoesisStructureMap outcome" where
  "readFiles [] structures = ([], Inr structures)"
| "readFiles ((file, result) # rest) structures =
     (if endsWith file ''.xml'' then
        (case readStructure file result of
           (log, Inl e) \<Rightarrow> (log, Inl e)
         | (log, Inr None) \<Rightarrow>
             (case readFiles rest structures of (log', r) \<Rightarrow> (log @ log', r))
         | (log, Inr (Some structure)) \<Rightarrow>
             (case readFiles rest (Map_set (structure_name structure) structure structures) of
                (log', r) \<Rightarrow> (log @ log', r)))
      else readFiles rest structures)"

definition readStructures :: "(string \<times> jsval) list \<Rightarrow> NoesisStructureMap outcome" where
  "readStructures structureFiles = readFiles structureFiles (addBuiltInEnums (addBuiltInTypes []))"

section \<open>The type emitter (structures.ts)\<close>

text \<open>The target type of a property, the \<^verbatim>\<open>switch\<close> of \<^verbatim>\<open>outputTypes\<close>.\<close>

fun propertyType :: "NoesisProperty \<Rightarrow> string" where
  "propertyType (PString lo hi) = ''string''"
| "propertyType (PNumber lo hi d) = ''number''"
| "propertyType PBoolean = ''boolean''"
| "propertyType PCommand = ''(parameter?: unknown) => unknown''"
| "propertyType (PObject subType) = toStr (noesisSubtypeToTSConverter subType)"
| "propertyType (PImage p) = ''string | ImageSource''"
| "propertyType PBrush = ''string | Brush''"
| "propertyType PFont = ''FontFamily''"
| "propertyType (PEnum subType) = toStr (noesisSubtypeToTSConverter subType)"
| "propertyType (PCollection subType) =
     ''Array<'' @ toStr (noesisSubtypeToTSConverter subType) @ ''>''"

text \<open>What \<^verbatim>\<open>outputTypes\<close> writes for one structure, as the list of the chunks it passes
  to \<^verbatim>\<open>output.write\<close>.\<close>

fun writeStructure :: "string \<Rightarrow> NoesisStructure \<Rightarrow> string list" where
  "writeStructure indent (Class name properties) =
     [''// Definition for structure '' @ toStr name @ ''\<newline>'',
      ''export type '' @ toStr name @ '' = {\<newline>'']
     @ map (\<lambda>(propName, property).
              indent @ toStr propName @ '': '' @ propertyType property @ '';\<newline>'') properties
     @ [''}\<newline>\<newline>'']"
| "writeStructure indent (Enum name items) =
     [''// Definition for enum '' @ toStr name @ ''\<newline>'',
      ''export enum '' @ toStr name @ '' {\<newline>'']
     @ map (\<lambda>(itemName, v).
              indent @ dquote @ toStr itemName @ dquote @ '' = '' @ dquote @ toStr itemName
              @ dquote @ '',\<newline>'') items
     @ [''}\<newline>\<newline>'']"
| "writeStructure indent (BuiltIn name) = []"

text \<open>The chunks written to \<^verbatim>\<open>NoesisTypes.ts\<close>, in order; the file is their
  concatenation.\<close>

definition outputTypes :: "NoesisStructureMap \<Rightarrow> nat \<Rightarrow> string list" where
  "outputTypes structures indentLevel =
    [''// Auto-generated TypeScript definitions for Noesis structures\<newline>\<newline>'',
     ''import { ImageSource } from '' @ dquote @ ''horizon/ui'' @ dquote @ '';\<newline>\<newline>'',
     ''// Complex brushes not yet supported\<newline>'',
     ''export type Brush = never;\<newline>\<newline>'']
    @ concat (map (\<lambda>(k, structure). writeStructure (spaces indentLevel) structure) structures)"

section \<open>The data transformer (datasets.ts)\<close>

definition processCommand :: "string \<Rightarrow> jsval \<Rightarrow> nat \<Rightarrow> exn + string" where
  "processCommand indent commandData indentLevel =
    (case js_get commandData ''Message'' of
       Inl e \<Rightarrow> Inl e
     | Inr message \<Rightarrow>
         Inr (''(parameter?: unknown) => {\<newline>''
              @ (indent @ spaces indentLevel) @ ''console.log('' @ dquote @ toStr message @ dquote
              @ '', parameter ? parameter : '' @ dquote @ dquote @ '');\<newline>''
              @ indent @ ''}''))"

text \<open>\<^verbatim>\<open>escapeString\<close> calls \<^verbatim>\<open>str.replace\<close>, a method of strings only.\<close>

fun escapeString :: "jsval \<Rightarrow> exn + string" where
  "escapeString (JString s) = Inr (escapeQuotes s)"
| "escapeString v = Inl TypeError"

text \<open>\<^verbatim>\<open>imageSource.split(";", 2)[1]?.replace("component/", "")\<close>: the limit keeps the
  first two pieces of the split, and the second piece, when there is one, loses the first
  occurrence of \<^verbatim>\<open>component/\<close>.\<close>

definition imagePath :: "jsval \<Rightarrow> exn + jsval" where
  "imagePath imageSource =
    (case js_split imageSource (CHR '';'') of
       Inl e \<Rightarrow> Inl e
     | Inr parts \<Rightarrow>
         (case take 2 parts of
            [p0, p1] \<Rightarrow> Inr (JString (replaceFirst ''component/'' [] p1))
          | _ \<Rightarrow> Inr JUndefined))"

text \<open>The \<^verbatim>\<open>BuiltIn\<close> branch of \<^verbatim>\<open>processDataStructure\<close>, the switch on the name of the
  structure.\<close>

definition builtInValue :: "string \<Rightarrow> string \<Rightarrow> jsval \<Rightarrow> jsval \<Rightarrow> nat \<Rightarrow> string outcome" where
  "builtInValue indent structureName name data indentLevel =
    (if name = JString ''Single'' then ([], Inr (toStr data))
     else if name = JString ''Boolean'' then ([], Inr (toStr data))
     else if name = JString ''String'' then
       (case escapeString data of
          Inl e \<Rightarrow> ([], Inl e)
        | Inr s \<Rightarrow> ([], Inr (dquote @ s @ dquote)))
     else if name = JString ''Color'' then ([], Inr (toStr data))
     else if name = JString ''BitmapImage'' then
       (case js_get data ''UriSource'' of
          Inl e \<Rightarrow> ([], Inl e)
        | Inr u \<Rightarrow>
       (case js_get0 u of
          Inl e \<Rightarrow> ([], Inl e)
        | Inr imageSource \<Rightarrow>
       (case imagePath imageSource of
          Inl e \<Rightarrow> ([], Inl e)
        | Inr p \<Rightarrow>
            if truthy p then ([], Inr (dquote @ toStr p @ dquote))
            else ([WarnBuiltInImagePathNotFound structureName imageSource], Inr []))))
     else if name = JString ''SolidColorBrush'' then
       (case js_get data ''Color'' of
          Inl e \<Rightarrow> ([], Inl e)
        | Inr c \<Rightarrow>
       (case js_get0 c of
          Inl e \<Rightarrow> ([], Inl e)
        | Inr x \<Rightarrow> ([], Inr (dquote @ toStr x @ dquote))))
     else if name = JString ''MessageCommand'' then
       (case processCommand indent data indentLevel of
          Inl e \<Rightarrow> ([], Inl e)
        | Inr s \<Rightarrow> ([], Inr s))
     else ([UnknownBuiltIn name], Inr []))"

lemma js_get_size_le: "js_get d k = Inr v \<Longrightarrow> size v \<le> size d"
proof (cases d)
  case (JObject kvs)
  assume g: "js_get d k = Inr v"
  show ?thesis
  proof (cases "map_of kvs k")
    case None
    with g JObject show ?thesis by simp
  next
    case (Some w)
    then have "(k, w) \<in> set kvs" by (rule map_of_SomeD)
    then have "size w \<le> size_list (size_prod (\<lambda>x. 0) size) kvs"
      by (induction kvs) auto
    with g JObject Some show ?thesis by simp
  qed
qed auto

lemma js_get_size_less: "js_get d k = Inr v \<Longrightarrow> truthy v \<Longrightarrow> size v < size d"
proof (cases d)
  case (JObject kvs)
  assume g: "js_get d k = Inr v" and t: "truthy v"
  show ?thesis
  proof (cases "map_of kvs k")
    case None
    with g t JObject show ?thesis by auto
  next
    case (Some w)
    then have "(k, w) \<in> set kvs" by (rule map_of_SomeD)
    then have "size w \<le> size_list (size_prod (\<lambda>x. 0) size) kvs"
      by (induction kvs) auto
    with g JObject Some show ?thesis by simp
  qed
qed auto

lemma js_get0_size_le: "js_get0 d = Inr v \<Longrightarrow> size v \<le> size d"
proof (cases d)
  case (JObject kvs)
  assume g: "js_get0 d = Inr v"
  show ?thesis
  proof (cases "map_of kvs ''0''")
    case None
    with g JObject show ?thesis by simp
  next
    case (Some w)
    then have "(''0'', w) \<in> set kvs" by (rule map_of_SomeD)
    then have "size w \<le> size_list (size_prod (\<lambda>x. 0) size) kvs"
      by (induction kvs) auto
    with g JObject Some show ?thesis by simp
  qed
qed (auto split: list.splits)

lemma find_in_set: "find P ys = Some y \<Longrightarrow> y \<in> set ys"
  by (induction ys) (auto split: if_splits)

lemma js_lookup_size_le: "js_lookup members d k = Inr v \<Longrightarrow> size v \<le> size d"
proof (cases "ownProperty d k")
  case None
  assume "js_lookup members d k = Inr v"
  with None have "size v = 0"
    by (cases "members d k"; cases "the (members d k)")
      (auto simp: js_lookup_def split: if_splits)
  then show ?thesis by simp
next
  case (Some w)
  assume g: "js_lookup members d k = Inr v"
  with Some have v: "v = w" by (auto simp: js_lookup_def split: if_splits)
  show ?thesis
  proof (cases d)
    case (JObject kvs)
    with Some have "(k, w) \<in> set kvs" by (auto dest: map_of_SomeD)
    then have "size w \<le> size_list (size_prod (\<lambda>x. 0) size) kvs"
      by (induction kvs) auto
    with JObject v show ?thesis by simp
  next
    case (JArray xs)
    with Some obtain i where "find (\<lambda>i. decimal i = k) [0..<length xs] = Some i" and "w = xs ! i"
      by auto
    then have "w \<in> set xs" by (auto dest: find_in_set)
    then have "size w \<le> size_list size xs"
      by (induction xs) auto
    with JArray v show ?thesis by simp
  qed (use Some in auto)
qed

text \<open>\<^verbatim>\<open>processDataStructure\<close> and \<^verbatim>\<open>processArray\<close> call each other. The loop over the
  properties of a class is \<^verbatim>\<open>forEachClassProperty\<close>, and the \<^verbatim>\<open>switch\<close> on the kind of
  one property, which sets \<^verbatim>\<open>value\<close>, is \<^verbatim>\<open>propertyValue\<close>. An exception leaves all of
  them at once. Every recursive call is on a part of the data, so the recursion ends
  whatever the registry is.\<close>

function processDataStructure ::
    "members \<Rightarrow> NoesisStructureMap \<Rightarrow> string \<Rightarrow> jsval \<Rightarrow> jsval \<Rightarrow> nat \<Rightarrow> string outcome"
  and forEachClassProperty ::
    "members \<Rightarrow> NoesisStructureMap \<Rightarrow> string \<Rightarrow> string \<Rightarrow> (jsval \<times> NoesisProperty) list \<Rightarrow> jsval \<Rightarrow> nat
      \<Rightarrow> string outcome"
  and propertyValue ::
    "members \<Rightarrow> NoesisStructureMap \<Rightarrow> string \<Rightarrow> string \<Rightarrow> jsval \<Rightarrow> NoesisProperty \<Rightarrow> jsval \<Rightarrow> nat
      \<Rightarrow> string outcome"
  and processArray ::
    "members \<Rightarrow> NoesisStructureMap \<Rightarrow> string \<Rightarrow> jsval \<Rightarrow> jsval list \<Rightarrow> nat \<Rightarrow> string outcome"
where
  "processDataStructure members structures indent structureType data indentLevel =
    (case js_split structureType (CHR ''.'') of
       Inl e \<Rightarrow> ([], Inl e)
     | Inr structureNameParts \<Rightarrow>
         (case Map_get structures (last structureNameParts) of
            Some (Class name properties) \<Rightarrow>
              (case forEachClassProperty members structures (indent @ spaces indentLevel)
                      (last structureNameParts) properties data indentLevel of
                 (log, Inl e) \<Rightarrow> (log, Inl e)
               | (log, Inr body) \<Rightarrow> (log, Inr (''{\<newline>'' @ body @ indent @ ''}'')))
          | Some (Enum name items) \<Rightarrow> ([], Inr (toStr name @ ''.'' @ toStr data))
          | Some (BuiltIn name) \<Rightarrow>
              builtInValue indent (last structureNameParts) name data indentLevel
          | None \<Rightarrow> ([UnknownStructureTypeForData (last structureNameParts)], Inr [])))"
| "forEachClassProperty members structures subIndent structureName [] data indentLevel = ([], Inr [])"
| "forEachClassProperty members structures subIndent structureName ((propName, property) # rest) data
      indentLevel =
    (case propertyValue members structures subIndent structureName propName property data indentLevel of
       (log, Inl e) \<Rightarrow> (log, Inl e)
     | (log, Inr v) \<Rightarrow>
         (case forEachClassProperty members structures subIndent structureName rest data indentLevel of
            (log', Inl e) \<Rightarrow> (log @ log', Inl e)
          | (log', Inr result) \<Rightarrow>
              (log @ log',
               Inr (subIndent @ toStr propName @ '': '' @ v @ '',\<newline>'' @ result))))"
| "propertyValue members structures subIndent structureName propName property data indentLevel =
    (case js_lookup members data (toStr propName) of
       Inl e \<Rightarrow> ([], Inl e)
     | Inr propValue \<Rightarrow>
    (case js_get data (structureName @ ''.'' @ toStr propName) of
       Inl e \<Rightarrow> ([], Inl e)
     | Inr objectPropValue \<Rightarrow>
    (case property of
       PString lo hi \<Rightarrow>
         if truthy propValue then
           (case js_get0 propValue of
              Inl e \<Rightarrow> ([], Inl e)
            | Inr x \<Rightarrow>
           (case escapeString x of
              Inl e \<Rightarrow> ([], Inl e)
            | Inr s \<Rightarrow> ([], Inr (dquote @ s @ dquote))))
         else ([], Inr (dquote @ dquote))
     | PNumber lo hi d \<Rightarrow>
         if truthy propValue then
           (case js_get0 propValue of
              Inl e \<Rightarrow> ([], Inl e)
            | Inr x \<Rightarrow> ([], Inr (toStr x)))
         else ([], Inr ''0'')
     | PBoolean \<Rightarrow>
         if truthy propValue then
           (case js_get0 propValue of
              Inl e \<Rightarrow> ([], Inl e)
            | Inr x \<Rightarrow> ([], Inr (toStr x)))
         else ([], Inr ''false'')
     | PEnum subType \<Rightarrow>
         if truthy propValue then ([], Inr (toStr subType @ ''.'' @ toStr propValue))
         else ([], Inr (''undefined as any as '' @ toStr subType))
     | PFont \<Rightarrow>
         if truthy propValue then
           (case js_get0 propValue of
              Inl e \<Rightarrow> ([], Inl e)
            | Inr x \<Rightarrow> ([], Inr (''FontFamily.'' @ toStr x)))
         else ([], Inr ''FontFamily.Bangers'')
     | PObject subType \<Rightarrow>
         if truthy objectPropValue then
           (case js_get0 objectPropValue of
              Inl e \<Rightarrow> ([], Inl e)
            | Inr wrapper \<Rightarrow>
           (case js_lookup members wrapper (toStr subType) of
              Inl e \<Rightarrow> ([], Inl e)
            | Inr inner \<Rightarrow>
           (case js_get0 inner of
              Inl e \<Rightarrow> ([], Inl e)
            | Inr structureData \<Rightarrow>
                processDataStructure members structures subIndent subType structureData indentLevel)))
         else ([], Inr (''undefined as any as '' @ toStr subType))
     | PImage path \<Rightarrow>
         if truthy propValue then
           (case js_get0 propValue of
              Inl e \<Rightarrow> ([], Inl e)
            | Inr imageSource \<Rightarrow>
           (case imagePath imageSource of
              Inl e \<Rightarrow> ([], Inl e)
            | Inr p \<Rightarrow>
                if truthy p then ([], Inr (dquote @ toStr p @ dquote))
                else ([WarnImagePathNotFound propName structureName imageSource],
                      Inr (dquote @ dquote))))
         else ([], Inr (dquote @ dquote))
     | PBrush \<Rightarrow>
         if truthy propValue then
           (case js_get0 propValue of
              Inl e \<Rightarrow> ([], Inl e)
            | Inr x \<Rightarrow> ([], Inr (dquote @ toStr x @ dquote)))
         else ([], Inr (dquote @ dquote))
     | PCollection subType \<Rightarrow>
         if truthy objectPropValue then
           (case js_get0 objectPropValue of
              Inl e \<Rightarrow> ([], Inl e)
            | Inr wrapper \<Rightarrow>
           (case js_lookup members wrapper (toStr (noesisSubtypeToNoesisTypeConverter subType)) of
              Inl e \<Rightarrow> ([], Inl e)
            | Inr itemsData \<Rightarrow>
           (case itemsData of
              JArray items \<Rightarrow>
                (case processArray members structures subIndent
                        (noesisSubtypeToNoesisTypeConverter subType) items indentLevel of
                   (log, Inl e) \<Rightarrow> (log, Inl e)
                 | (log, Inr body) \<Rightarrow> (log, Inr (''[\<newline>'' @ body @ subIndent @ '']'')))
            | _ \<Rightarrow>
                ([WarnExpectedArray propName (noesisSubtypeToNoesisTypeConverter subType)
                    structureName data],
                 Inr ''[]''))))
         else ([], Inr ''[]'')
     | PCommand \<Rightarrow>
         if truthy objectPropValue then
           (case js_get0 objectPropValue of
              Inl e \<Rightarrow> ([], Inl e)
            | Inr commandData \<Rightarrow>
           (case js_get commandData ''MessageCommand'' of
              Inl e \<Rightarrow> ([], Inl e)
            | Inr messageCommand \<Rightarrow>
                if truthy messageCommand then
                  (case js_get0 messageCommand of
                     Inl e \<Rightarrow> ([], Inl e)
                   | Inr c \<Rightarrow>
                  (case processCommand subIndent c indentLevel of
                     Inl e \<Rightarrow> ([], Inl e)
                   | Inr s \<Rightarrow> ([], Inr s)))
                else
                  ([WarnUnknownCommandType propName structureName commandData],
                   Inr (''() => { console.warn('' @ squote @ ''Command type not recognized''
                        @ squote @ ''); }''))))
         else
           ([], Inr (''() => { console.warn('' @ squote @ ''Command not defined'' @ squote
                     @ ''); }'')))))"
| "processArray members structures indent itemType [] indentLevel = ([], Inr [])"
| "processArray members structures indent itemType (itemData # rest) indentLevel =
    (case processDataStructure members structures (indent @ spaces indentLevel) itemType itemData
            indentLevel of
       (log, Inl e) \<Rightarrow> (log, Inl e)
     | (log, Inr item) \<Rightarrow>
         (case processArray members structures indent itemType rest indentLevel of
            (log', Inl e) \<Rightarrow> (log @ log', Inl e)
          | (log', Inr result) \<Rightarrow>
              (log @ log',
               Inr ((indent @ spaces indentLevel) @ item @ '',\<newline>'' @ result))))"
  by pat_completeness auto

termination processDataStructure
  apply (relation "inv_image (less_than <*lex*> less_than <*lex*> less_than)
     (\<lambda>x. case x of
        Inl (Inl (m, s, i, t, d, n)) \<Rightarrow> (size d, 2::nat, 0::nat)
      | Inl (Inr (m, s, i, sn, ps, d, n)) \<Rightarrow> (size d, 1, length ps)
      | Inr (Inl (m, s, i, sn, pn, p, d, n)) \<Rightarrow> (size d, 0, 0)
      | Inr (Inr (m, s, i, t, xs, n)) \<Rightarrow> (size (JArray xs), 0, 0))")
          apply simp_all
  subgoal by (intro wf_inv_image wf_lex_prod wf_less_than)
  subgoal for m sn pn p d b ba x7 bb bc bd
    using js_get_size_less[of d "sn @ CHR ''.'' # toStr pn" ba] js_get0_size_le[of ba bb]
      js_lookup_size_le[of m bb "toStr x7" bc] js_get0_size_le[of bc bd]
    by simp
  subgoal for m sn pn p d b ba x10 bb bc x5
    using js_get_size_less[of d "sn @ CHR ''.'' # toStr pn" ba] js_get0_size_le[of ba bb]
      js_lookup_size_le[of m bb "toStr (noesisSubtypeToNoesisTypeConverter x10)" "JArray x5"]
    by simp
  done

declare processDataStructure.simps [simp del]
declare propertyValue.simps [simp del]

text \<open>The files that \<^verbatim>\<open>outputDataSets\<close> reads: the one set that was asked for, or every
  file of the directory listing that ends with \<^verbatim>\<open>.xaml\<close>. An empty set name is falsy.\<close>

definition dataFiles :: "string option \<Rightarrow> string list \<Rightarrow> string list" where
  "dataFiles setName listing =
    (case setName of
       None \<Rightarrow> filter (\<lambda>file. endsWith file ''.xaml'') listing
     | Some n \<Rightarrow>
         if n \<noteq> [] then [n @ ''.xaml''] else filter (\<lambda>file. endsWith file ''.xaml'') listing)"

text \<open>The names that the data module imports: those of the structures that are not
  built in, in the order of the registry.\<close>

fun importNames :: "NoesisStructureMap \<Rightarrow> jsval list" where
  "importNames [] = []"
| "importNames ((k, BuiltIn name) # rest) = importNames rest"
| "importNames ((k, structure) # rest) = structure_name structure # importNames rest"

text \<open>The three chunks written to the data module of one file.\<close>

definition dataModule :: "NoesisStructureMap \<Rightarrow> string \<Rightarrow> jsval \<Rightarrow> string \<Rightarrow> string list" where
  "dataModule structures file structureType dataSet =
    [''// Auto-generated data context from Noesis data set: '' @ file @ ''\<newline>\<newline>'',
     ''import { '' @ join '', '' (map elementStr (importNames structures)) @ '' } from '' @ dquote
       @ ''./NoesisTypes'' @ dquote @ '';\<newline>\<newline>'',
     ''export const dataContext: '' @ toStr structureType @ '' = '' @ dataSet @ '';\<newline>'']"

text \<open>The loop of \<^verbatim>\<open>outputDataSets\<close> over the data files. \<^verbatim>\<open>parsed\<close> gives, for a file
  name, the entries of the object that the parser returns for its content, the root
  element first. The result is the list of the files written, each with its name and
  its chunks, what was logged, and the exception that ended the loop, if any.\<close>

fun forEachDataFile ::
  "members \<Rightarrow> NoesisStructureMap \<Rightarrow> (string \<Rightarrow> (string \<times> jsval) list) \<Rightarrow> string list \<Rightarrow> nat
    \<Rightarrow> (string \<times> string list) list \<times> console_msg list \<times> exn option" where
  "forEachDataFile members structures parsed [] indentLevel = ([], [], None)"
| "forEachDataFile members structures parsed (file # rest) indentLevel =
    (case js_get (JObject (parsed file))
            (toStr (case parsed file of [] \<Rightarrow> JUndefined | (k, v) # _ \<Rightarrow> JString k)) of
       Inl e \<Rightarrow> ([], [], Some e)
     | Inr root \<Rightarrow>
    (case processDataStructure members structures []
            (case parsed file of [] \<Rightarrow> JUndefined | (k, v) # _ \<Rightarrow> JString k) root indentLevel of
       (log, Inl e) \<Rightarrow> ([], log, Some e)
     | (log, Inr dataSet) \<Rightarrow>
         (case forEachDataFile members structures parsed rest indentLevel of
            (written, log', x) \<Rightarrow>
              ((replaceFirst ''.xaml'' ''.ts'' file,
                dataModule structures file
                  (case parsed file of [] \<Rightarrow> JUndefined | (k, v) # _ \<Rightarrow> JString k) dataSet)
               # written,
               log @ log', x))))"

definition outputDataSets ::
  "members \<Rightarrow> NoesisStructureMap \<Rightarrow> (string \<Rightarrow> (string \<times> jsval) list) \<Rightarrow> string list \<Rightarrow> string option \<Rightarrow> nat
    \<Rightarrow> (string \<times> string list) list \<times> console_msg list \<times> exn option" where
  "outputDataSets members structures parsed listing setName indentLevel =
    forEachDataFile members structures parsed (dataFiles setName listing) indentLevel"

section \<open>Notions of the specification and example inputs\<close>

text \<open>The final dot-separated segment of a name: the text after its last dot, the whole
  name when it has no dot.\<close>

definition finalSegment :: "string \<Rightarrow> string" where
  "finalSegment s = rev (takeWhile (\<lambda>x. x \<noteq> CHR ''.'') (rev s))"

text \<open>The structures that the files of a listing register, in the order of the listing:
  one for each file that ends with \<^verbatim>\<open>.xml\<close> and holds a Class or an Enum.\<close>

definition registrations :: "(string \<times> jsval) list \<Rightarrow> NoesisStructure list" where
  "registrations structureFiles =
    concat (map (\<lambda>(file, result).
      if endsWith file ''.xml'' then
        (case readStructure file result of
           (log, Inr (Some structure)) \<Rightarrow> [structure]
         | _ \<Rightarrow> [])
      else []) structureFiles)"

text \<open>The last of them that was registered under a name.\<close>

definition lastRegistration :: "string \<Rightarrow> NoesisStructure list \<Rightarrow> NoesisStructure option" where
  "lastRegistration n registered = find (\<lambda>s. structure_name s = JString n) (rev registered)"

text \<open>A directory listing for the examples: two files that declare the class
  \<^verbatim>\<open>Card\<close>, a file that is not a schema, and a file that declares a class under the name
  of the built-in type \<^verbatim>\<open>Single\<close>.\<close>

definition exampleFiles :: "(string \<times> jsval) list" where
  "exampleFiles =
    [(''Card.xml'', JObject [(''Class'', JObject [(''Name'', JString ''Card''),
        (''Property'', JObject [(''Name'', JString ''Title''), (''Type'', JString ''String'')])])]),
     (''notes.txt'', JUndefined),
     (''Card2.xml'', JObject [(''Class'', JObject [(''Name'', JString ''Card''),
        (''Property'', JObject [(''Name'', JString ''Power''), (''Type'', JString ''Boolean'')])])]),
     (''Single.xml'', JObject [(''Class'', JObject [(''Name'', JString ''Single''),
        (''Property'', JObject [(''Name'', JString ''On''), (''Type'', JString ''Boolean'')])])])]"

text \<open>The value that a property read gives for a node that is not \<^verbatim>\<open>undefined\<close>.\<close>

definition field :: "jsval \<Rightarrow> string \<Rightarrow> jsval" where
  "field v k = (case js_get v k of Inl e \<Rightarrow> JUndefined | Inr x \<Rightarrow> x)"

text \<open>The value that the read of a key from the schema gives on a node that is not
  \<^verbatim>\<open>undefined\<close>, inherited members included.\<close>

definition lookupField :: "members \<Rightarrow> jsval \<Rightarrow> string \<Rightarrow> jsval" where
  "lookupField members v k = (case js_lookup members v k of Inl e \<Rightarrow> JUndefined | Inr x \<Rightarrow> x)"

text \<open>A runtime for the examples: an object inherits the functions of
  \<^verbatim>\<open>Object.prototype\<close>, printed as one engine prints them. A real engine gives more
  members, to strings above all; the theorems hold for every table, and the examples
  read strings only under keys that no prototype has.\<close>

definition exampleMembers :: members where
  "exampleMembers v k =
    (case v of
       JObject kvs \<Rightarrow>
         if k = ''constructor'' then Some (MNative ''function Object() { [native code] }'')
         else if k \<in> set [''hasOwnProperty'', ''isPrototypeOf'', ''propertyIsEnumerable'',
                            ''toLocaleString'', ''toString'', ''valueOf'']
         then Some (MNative (''function '' @ k @ ''() { [native code] }''))
         else None
     | _ \<Rightarrow> None)"

text \<open>A property declaration has a recognized \<^verbatim>\<open>Type\<close> when it is one of the seven that
  the schema format lists.\<close>

definition recognizedType :: "jsval \<Rightarrow> bool" where
  "recognizedType prop =
    (field prop ''Type'' \<in> set (map JString
       [''Object'', ''Enum'', ''String'', ''Number'', ''Boolean'', ''Collection'', ''Command'']))"

text \<open>A declaration can be classified when its \<^verbatim>\<open>Type\<close> is recognized and its
  \<^verbatim>\<open>SubType\<close> is a name or is missing (a token that the parser turned into a number or
  into \<^verbatim>\<open>true\<close> is no name and cannot be split at its dots).\<close>

definition usableSubType :: "jsval \<Rightarrow> bool" where
  "usableSubType prop = (case field prop ''SubType'' of JString s \<Rightarrow> True | v \<Rightarrow> \<not> truthy v)"

definition classifiable :: "jsval \<Rightarrow> bool" where
  "classifiable prop = (recognizedType prop \<and> usableSubType prop)"

text \<open>The sub-type that a kind carries: the final segment of the declared name, nothing
  when no name is declared.\<close>

definition subTypeSegment :: "jsval \<Rightarrow> jsval" where
  "subTypeSegment prop =
    (case field prop ''SubType'' of
       JString s \<Rightarrow> if s = [] then JUndefined else JString (finalSegment s)
     | v \<Rightarrow> JUndefined)"

text \<open>The kind of a declaration that can be classified, as the specification gives it in
  its data model and in its description of the loader.\<close>

definition propertyKind :: "jsval \<Rightarrow> NoesisProperty" where
  "propertyKind prop =
    (if field prop ''Type'' = JString ''Object'' then
       (if field prop ''SubType'' = JString ''Brush'' then PBrush
        else if field prop ''SubType'' = JString ''ImageSource''
          then PImage (field prop ''ImageSourcePath'')
        else if field prop ''SubType'' = JString ''FontFamily'' then PFont
        else PObject (subTypeSegment prop))
     else if field prop ''Type'' = JString ''Enum'' then PEnum (subTypeSegment prop)
     else if field prop ''Type'' = JString ''String''
       then PString (field prop ''StringMinWordCount'') (field prop ''StringMaxWordCount'')
     else if field prop ''Type'' = JString ''Number''
       then PNumber (field prop ''NumberMinValue'') (field prop ''NumberMaxValue'')
              (field prop ''NumberDecimalCount'')
     else if field prop ''Type'' = JString ''Boolean'' then PBoolean
     else if field prop ''Type'' = JString ''Collection'' then PCollection (subTypeSegment prop)
     else PCommand)"

text \<open>The error of a declaration that cannot be classified.\<close>

definition propertyError :: "jsval \<Rightarrow> exn" where
  "propertyError prop =
    (if usableSubType prop then Error (''Unknown property type: '' @ toStr (field prop ''Type''))
     else TypeError)"

text \<open>The properties of a class after the load: those of the declarations that can be
  classified, each stored under its name in the order of the declarations, a later one
  taking the place of an earlier one of the same name.\<close>

definition remainingProperties :: "jsval list \<Rightarrow> (jsval \<times> NoesisProperty) list" where
  "remainingProperties decls =
    foldl (\<lambda>properties prop. Map_set (field prop ''Name'') (propertyKind prop) properties) []
      (filter classifiable decls)"

text \<open>What the load of a class logs: one error for each declaration that cannot be
  classified, in the order of the declarations.\<close>

definition propertyErrors :: "jsval \<Rightarrow> jsval list \<Rightarrow> console_msg list" where
  "propertyErrors className decls =
    map (\<lambda>prop. ErrorProcessingProperty (field prop ''Name'') className (propertyError prop))
      (filter (\<lambda>prop. \<not> classifiable prop) decls)"

text \<open>The property declarations of a class: the parser gives a single child as the
  node itself and several children as an array.\<close>

definition declarations :: "jsval \<Rightarrow> jsval list" where
  "declarations property = (case property of JArray props \<Rightarrow> props | _ \<Rightarrow> [property])"

text \<open>A class with five property declarations, the second of an unknown type.\<close>

definition exampleClass :: "(string \<times> jsval) list" where
  "exampleClass =
    [(''Name'', JString ''Card''),
     (''Property'', JArray
        [JObject [(''Name'', JString ''Title''), (''Type'', JString ''String'')],
         JObject [(''Name'', JString ''Glow''), (''Type'', JString ''Shader'')],
         JObject [(''Name'', JString ''Power''), (''Type'', JString ''Number''),
                  (''NumberMinValue'', JNumber ''0'')],
         JObject [(''Name'', JString ''Owner''), (''Type'', JString ''Object''),
                  (''SubType'', JString ''Game.Player'')],
         JObject [(''Name'', JString ''Tags''), (''Type'', JString ''Collection''),
                  (''SubType'', JString ''String'')]])]"

text \<open>The piece of a raw image source between its first and its second semicolon, up
  to the end when there is no second one.\<close>

definition secondSegment :: "string \<Rightarrow> string" where
  "secondSegment s =
     takeWhile (\<lambda>c. c \<noteq> CHR '';'') (tl (dropWhile (\<lambda>c. c \<noteq> CHR '';'') s))"

text \<open>The relative path as the specification words it: everything after the first
  semicolon, without the prefix \<^verbatim>\<open>component/\<close> when it starts with it.\<close>

definition claimedImagePath :: "string \<Rightarrow> string" where
  "claimedImagePath s =
     (let remainder = tl (dropWhile (\<lambda>c. c \<noteq> CHR '';'') s)
      in if startsWith remainder ''component/'' then drop (length ''component/'') remainder
         else remainder)"

text \<open>The alias table of the specification, from a declared sub-type name to the tag of
  the elements in the data; a name that is not in the table is its own tag.\<close>

definition aliasTable :: "(string \<times> string) list" where
  "aliasTable =
    [(''Brush'', ''SolidColorBrush''), (''Bool'', ''Boolean''), (''ImageSource'', ''BitmapImage''),
     (''BaseCommand'', ''MessageCommand'')]"

definition elementTag :: "string \<Rightarrow> string" where
  "elementTag subType = (case map_of aliasTable subType of None \<Rightarrow> subType | Some tag \<Rightarrow> tag)"

text \<open>A data node with a collection of two brushes.\<close>

definition examplePalette :: jsval where
  "examplePalette =
    JObject [(''Palette.Colors'', JArray [JObject [(''SolidColorBrush'', JArray
       [JObject [(''Color'', JArray [JString ''#FF0000''])],
        JObject [(''Color'', JArray [JString ''#00FF00''])]])]])]"

text \<open>The field of the data node for a property of a class, as the runtime reads it:
  the structured kinds are nested under the name qualified with the class, the others
  stand under the name of the property. The field is absent when this value is
  \<^verbatim>\<open>undefined\<close>.\<close>

fun fieldValue :: "members \<Rightarrow> string \<Rightarrow> jsval \<Rightarrow> NoesisProperty \<Rightarrow> jsval \<Rightarrow> jsval" where
  "fieldValue members structureName propName (PObject subType) data =
     field data (structureName @ ''.'' @ toStr propName)"
| "fieldValue members structureName propName (PCollection subType) data =
     field data (structureName @ ''.'' @ toStr propName)"
| "fieldValue members structureName propName PCommand data =
     field data (structureName @ ''.'' @ toStr propName)"
| "fieldValue members structureName propName property data =
     lookupField members data (toStr propName)"



text \<open>Two registries are identical except for the word-count bounds of their String
  properties and the minimum, maximum and decimal count of their Number properties when
  they are equal once these five fields are blanked.\<close>

fun eraseBounds :: "NoesisProperty \<Rightarrow> NoesisProperty" where
  "eraseBounds (PString lo hi) = PString JUndefined JUndefined"
| "eraseBounds (PNumber lo hi d) = PNumber JUndefined JUndefined JUndefined"
| "eraseBounds property = property"

fun eraseStructure :: "NoesisStructure \<Rightarrow> NoesisStructure" where
  "eraseStructure (Class name properties) =
     Class name (map (\<lambda>(propName, property). (propName, eraseBounds property)) properties)"
| "eraseStructure structure = structure"

definition eraseRegistry :: "NoesisStructureMap \<Rightarrow> NoesisStructureMap" where
  "eraseRegistry structures = map (\<lambda>(k, structure). (k, eraseStructure structure)) structures"

text \<open>The parsed content of the data sets of the examples: \<^verbatim>\<open>deck.xaml\<close> has the root
  \<^verbatim>\<open>Deck\<close>, every other file the root \<^verbatim>\<open>Card\<close>.\<close>

definition exampleSets :: "string \<Rightarrow> (string \<times> jsval) list" where
  "exampleSets f =
    (if f = ''deck.xaml'' then [(''Deck'', JObject [(''Title'', JArray [JString ''Ace''])])]
     else [(''Card'', JObject [(''Title'', JArray [JString ''Ace''])])])"

text \<open>A card with a title of six words and a power with three decimals.\<close>

definition exampleCard :: "string \<Rightarrow> (string \<times> jsval) list" where
  "exampleCard f =
    [(''Card'', JObject [(''Title'', JArray [JString ''one two three four five six'']),
                        (''Power'', JArray [JNumber ''12.345''])])]"

section \<open>Lemmas\<close>

lemma splitOn_nonempty: "splitOn c s \<noteq> []"
  by (induction s) (auto split: list.splits)

lemma splitOn_no_separator: "c \<notin> set s \<Longrightarrow> splitOn c s = [s]"
  by (induction s) auto

lemma splitOn_separator: "c \<in> set s \<Longrightarrow> tl (splitOn c s) \<noteq> []"
  by (induction s) (auto split: list.splits simp: splitOn_nonempty)

lemma last_splitOn: "last (splitOn c s) = rev (takeWhile (\<lambda>x. x \<noteq> c) (rev s))"
proof (induction s)
  case Nil
  show ?case by simp
next
  case (Cons x xs)
  show ?case
  proof (cases "c \<in> set xs")
    case True
    with Cons splitOn_separator[OF True] show ?thesis
      by (auto split: list.splits simp: takeWhile_append splitOn_nonempty)
  next
    case False
    with Cons splitOn_no_separator[OF False] show ?thesis
      by (auto simp: takeWhile_append)
  qed
qed

lemma Map_get_Map_set:
  "Map_get (Map_set k v m) n = (if k = JString n then Some v else Map_get m n)"
  by (induction m) auto

lemma keys_Map_set: "set (map fst (Map_set k v m)) = insert k (set (map fst m))"
  by (induction m) (auto simp: rev_image_eqI split: if_splits)

lemma find_append:
  "find P (xs @ ys) = (case find P xs of None \<Rightarrow> find P ys | Some x \<Rightarrow> Some x)"
  by (induction xs) auto

lemma distinct_Map_set:
  "distinct (filter primitive (map fst m)) \<Longrightarrow> distinct (filter primitive (map fst (Map_set k v m)))"
proof (induction m)
  case Nil
  show ?case by simp
next
  case (Cons a m)
  obtain k' v' where a: "a = (k', v')" by (cases a)
  from Cons keys_Map_set[of k v m] a show ?case
    by (auto simp del: set_map)
qed

lemma distinct_addTypes:
  "distinct (filter primitive (map fst m)) \<Longrightarrow> distinct (filter primitive (map fst (addTypes ts m)))"
  by (induction ts arbitrary: m) (auto simp: distinct_Map_set)

lemma distinct_addEnums:
  "distinct (filter primitive (map fst m)) \<Longrightarrow> distinct (filter primitive (map fst (addEnums es m)))"
  by (induction es arbitrary: m) (auto simp: distinct_Map_set)

lemma distinct_readFiles:
  "readFiles files m = (log, Inr reg) \<Longrightarrow> distinct (filter primitive (map fst m))
    \<Longrightarrow> distinct (filter primitive (map fst reg))"
proof (induction files arbitrary: m log reg)
  case Nil
  then show ?case by simp
next
  case (Cons a files)
  obtain f result where a: "a = (f, result)" by (cases a)
  show ?case
  proof (cases "endsWith f ''.xml''")
    case False
    with Cons a show ?thesis by simp
  next
    case True
    with Cons.prems a show ?thesis
      by (auto split: prod.splits sum.splits option.splits
          dest!: Cons.IH simp: distinct_Map_set)
  qed
qed

lemma Map_get_readFiles:
  "readFiles files m = (log, Inr reg) \<Longrightarrow>
    Map_get reg n = (case lastRegistration n (registrations files) of
                       Some s \<Rightarrow> Some s | None \<Rightarrow> Map_get m n)"
proof (induction files arbitrary: m log reg)
  case Nil
  then show ?case by (simp add: registrations_def lastRegistration_def)
next
  case (Cons a files)
  obtain f result where a: "a = (f, result)" by (cases a)
  show ?case
  proof (cases "endsWith f ''.xml''")
    case False
    with Cons a show ?thesis by (simp add: registrations_def lastRegistration_def)
  next
    case True
    obtain l r where rs: "readStructure f result = (l, r)" by (cases "readStructure f result")
    show ?thesis
    proof (cases r)
      case (Inl e)
      with Cons.prems a True rs show ?thesis by simp
    next
      case (Inr so)
      show ?thesis
      proof (cases so)
        case None
        with Cons.prems a True rs Inr obtain l' where
          "readFiles files m = (l', Inr reg)"
          by (auto split: prod.splits)
        from Cons.IH[OF this] a True rs Inr None show ?thesis
          by (simp add: registrations_def lastRegistration_def)
      next
        case (Some s)
        with Cons.prems a True rs Inr obtain l' where
          "readFiles files (Map_set (structure_name s) s m) = (l', Inr reg)"
          by (auto split: prod.splits)
        from Cons.IH[OF this] a True rs Inr Some show ?thesis
          by (auto simp: registrations_def lastRegistration_def find_append Map_get_Map_set
              split: option.splits)
      qed
    qed
  qed
qed

lemma js_get_field: "v \<noteq> JUndefined \<Longrightarrow> js_get v k = Inr (field v k)"
  by (cases v) (auto simp: field_def split: option.splits)

lemma js_lookup_field:
  "v \<noteq> JUndefined \<Longrightarrow> js_lookup members v k = Inr (lookupField members v k)"
  by (auto simp: js_lookup_def lookupField_def split: option.splits)

lemma processProperty_classifiable:
  assumes "prop \<noteq> JUndefined"
  shows "processProperty prop =
    (if classifiable prop then Inr (propertyKind prop) else Inl (propertyError prop))"
proof (cases "field prop ''SubType''")
  case (JString s)
  with assms show ?thesis
    by (auto simp: processProperty_def js_get_field classifiable_def usableSubType_def
        recognizedType_def propertyKind_def propertyError_def subTypeSegment_def lastPart_def
        splitOn_nonempty last_splitOn finalSegment_def)
qed (use assms in \<open>auto simp: processProperty_def js_get_field classifiable_def
        usableSubType_def recognizedType_def propertyKind_def propertyError_def
        subTypeSegment_def lastPart_def\<close>)

lemma tryProperty_classifiable:
  assumes "prop \<noteq> JUndefined"
  shows "tryProperty className prop m =
    (if classifiable prop
     then ([], Inr (Map_set (field prop ''Name'') (propertyKind prop) m))
     else ([ErrorProcessingProperty (field prop ''Name'') className (propertyError prop)], Inr m))"
  using assms
  by (simp add: tryProperty_def processProperty_classifiable js_get_field del: Map_set.simps)

lemma forEachProperty_one: "forEachProperty className [p] m = tryProperty className p m"
  by (auto split: prod.splits sum.splits)

lemma forEachProperty_classifiable:
  assumes "JUndefined \<notin> set props"
  shows "forEachProperty className props m =
    (propertyErrors className props,
     Inr (foldl (\<lambda>properties prop. Map_set (field prop ''Name'') (propertyKind prop) properties) m
            (filter classifiable props)))"
  using assms
proof (induction props arbitrary: m)
  case Nil
  show ?case by (simp add: propertyErrors_def)
next
  case (Cons p props)
  then have p: "p \<noteq> JUndefined" and ps: "JUndefined \<notin> set props" by auto
  show ?case
    using Cons.IH[OF ps] tryProperty_classifiable[OF p, of className m]
    by (simp add: propertyErrors_def del: Map_set.simps)
qed

lemma processClassStructure_declarations:
  assumes "map_of doc ''Class'' = Some (JObject cls)"
  shows "processClassStructure (JObject doc) =
    (case forEachProperty (field (JObject cls) ''Name'')
            (declarations (field (JObject cls) ''Property'')) [] of
       (log, Inl e) \<Rightarrow> (log, Inl e)
     | (log, Inr properties) \<Rightarrow> (log, Inr (Class (field (JObject cls) ''Name'') properties)))"
  using assms
  by (auto simp: processClassStructure_def field_def declarations_def
      split: option.splits jsval.splits prod.splits sum.splits)

lemma splitOn_unfold:
  "splitOn c s =
     (if c \<in> set s then takeWhile (\<lambda>x. x \<noteq> c) s # splitOn c (tl (dropWhile (\<lambda>x. x \<noteq> c) s))
      else [s])"
  by (induction s) (auto split: list.splits)

lemma hd_splitOn: "hd (splitOn c s) = takeWhile (\<lambda>x. x \<noteq> c) s"
  by (induction s) (auto split: list.splits simp: splitOn_nonempty)

lemma take2_splitOn:
  "take 2 (splitOn c s) =
     (if c \<in> set s
      then [takeWhile (\<lambda>x. x \<noteq> c) s,
            takeWhile (\<lambda>x. x \<noteq> c) (tl (dropWhile (\<lambda>x. x \<noteq> c) s))]
      else [s])"
proof (cases "c \<in> set s")
  case True
  obtain p ps where "splitOn c (tl (dropWhile (\<lambda>x. x \<noteq> c) s)) = p # ps"
    using splitOn_nonempty[of c "tl (dropWhile (\<lambda>x. x \<noteq> c) s)"] by (cases "splitOn c (tl (dropWhile (\<lambda>x. x \<noteq> c) s))") auto
  moreover from this have "p = takeWhile (\<lambda>x. x \<noteq> c) (tl (dropWhile (\<lambda>x. x \<noteq> c) s))"
    using hd_splitOn[of c "tl (dropWhile (\<lambda>x. x \<noteq> c) s)"] by simp
  ultimately show ?thesis
    using True by (subst splitOn_unfold) (simp add: numeral_2_eq_2)
next
  case False
  then show ?thesis by (subst splitOn_unfold) simp
qed

lemma imagePath_string:
  "imagePath (JString s) =
     Inr (if CHR '';'' \<in> set s then JString (replaceFirst ''component/'' [] (secondSegment s))
          else JUndefined)"
  by (simp add: imagePath_def take2_splitOn secondSegment_def)

lemma converter_elementTag:
  "noesisSubtypeToNoesisTypeConverter (JString subType) = JString (elementTag subType)"
  by (simp add: noesisSubtypeToNoesisTypeConverter_def elementTag_def aliasTable_def)

lemma processArray_all:
  assumes "list_all2 (\<lambda>item (l, out).
              processDataStructure members structures (indent @ spaces indentLevel) itemType item indentLevel
                = (l, Inr out)) items results"
  shows "processArray members structures indent itemType items indentLevel =
      (concat (map fst results),
       Inr (concat (map (\<lambda>(l, out). (indent @ spaces indentLevel) @ out @ '',\<newline>'') results)))"
  using assms
  by (induction items results rule: list_all2_induct) auto




lemma propertyType_eraseBounds: "propertyType (eraseBounds p) = propertyType p"
  by (cases p) auto

lemma writeStructure_erase: "writeStructure indent (eraseStructure s) = writeStructure indent s"
  by (cases s) (auto simp: propertyType_eraseBounds)

lemma outputTypes_erase: "outputTypes (eraseRegistry structures) n = outputTypes structures n"
proof -
  have "map (\<lambda>(k, structure). writeStructure (spaces n) structure) (eraseRegistry structures)
      = map (\<lambda>(k, structure). writeStructure (spaces n) structure) structures"
    by (induction structures) (auto simp: eraseRegistry_def writeStructure_erase)
  then show ?thesis by (simp add: outputTypes_def)
qed

lemma Map_get_erase:
  "Map_get (eraseRegistry structures) k = map_option eraseStructure (Map_get structures k)"
  by (induction structures) (auto simp: eraseRegistry_def)

lemma importNames_erase: "importNames (eraseRegistry structures) = importNames structures"
proof (induction structures)
  case Nil
  show ?case by (simp add: eraseRegistry_def)
next
  case (Cons a structures)
  obtain k s where a: "a = (k, s)" by (cases a)
  from Cons a show ?case by (cases s) (auto simp: eraseRegistry_def)
qed

lemma transformer_erase:
  shows "processDataStructure members (eraseRegistry S) i t d n = processDataStructure members S i t d n"
    and "forEachClassProperty members (eraseRegistry S) si sn
           (map (\<lambda>(propName, property). (propName, eraseBounds property)) ps) d' n'
         = forEachClassProperty members S si sn ps d' n'"
    and "propertyValue members (eraseRegistry S) si' sn' pn (eraseBounds p) d'' n''
         = propertyValue members S si' sn' pn p d'' n''"
    and "processArray members (eraseRegistry S) i' it xs n''' = processArray members S i' it xs n'''"
proof (induction members S i t d n and members S si sn ps d' n'
    and members S si' sn' pn p d'' n'' and members S i' it xs n'''
    rule: processDataStructure_forEachClassProperty_propertyValue_processArray.induct)
  case (1 members structures indent structureType data indentLevel)
  show ?case
  proof (cases "js_split structureType (CHR ''.'')")
    case (Inl e)
    then show ?thesis
      by (simp add: processDataStructure.simps)
  next
    case (Inr parts)
    show ?thesis
    proof (cases "Map_get structures (last parts)")
      case None
      with Inr show ?thesis
        by (simp add: processDataStructure.simps Map_get_erase)
    next
      case (Some s)
      show ?thesis
      proof (cases s)
        case (Class name properties)
        from "1"[OF Inr Some Class] Inr Some Class show ?thesis
          by (simp add: processDataStructure.simps Map_get_erase)
      next
        case (Enum name items)
        with Inr Some show ?thesis
          by (simp add: processDataStructure.simps Map_get_erase)
      next
        case (BuiltIn name)
        with Inr Some show ?thesis
          by (simp add: processDataStructure.simps Map_get_erase)
      qed
    qed
  qed
next
  case (2 members structures subIndent structureName data indentLevel)
  show ?case by simp
next
  case (3 members structures subIndent structureName propName property rest data indentLevel)
  obtain l r where pv: "propertyValue members structures subIndent structureName propName property data
      indentLevel = (l, r)"
    by (cases "propertyValue members structures subIndent structureName propName property data indentLevel")
  show ?case
  proof (cases r)
    case (Inl e)
    with pv "3"(1) show ?thesis by simp
  next
    case (Inr v)
    from "3"(2)[OF pv[symmetric] Inr] pv Inr "3"(1) show ?thesis by simp
  qed
next
  case (4 members structures subIndent structureName propName property data indentLevel)
  show ?case
  proof (cases property)
    case (PObject subType)
    with "4"(1) show ?thesis
      by (auto simp: propertyValue.simps split: sum.splits)
  next
    case (PCollection subType)
    with "4"(2) show ?thesis
      by (auto simp: propertyValue.simps split: sum.splits jsval.splits)
  qed (simp_all add: propertyValue.simps split: sum.splits)
next
  case (5 members structures indent itemType indentLevel)
  show ?case by simp
next
  case (6 members structures indent itemType itemData rest indentLevel)
  obtain l r where pd: "processDataStructure members structures (indent @ spaces indentLevel) itemType
      itemData indentLevel = (l, r)"
    by (cases "processDataStructure members structures (indent @ spaces indentLevel) itemType itemData
      indentLevel")
  show ?case
  proof (cases r)
    case (Inl e)
    with pd "6"(1) show ?thesis by simp
  next
    case (Inr v)
    from "6"(2)[OF pd[symmetric] Inr] pd Inr "6"(1) show ?thesis by simp
  qed
qed


lemma dataModule_erase:
  "dataModule (eraseRegistry structures) f t dataSet = dataModule structures f t dataSet"
  by (simp add: dataModule_def importNames_erase)

lemma forEachDataFile_erase:
  "forEachDataFile members (eraseRegistry structures) parsed files n
     = forEachDataFile members structures parsed files n"
  by (induction files)
    (simp_all add: transformer_erase(1) dataModule_erase split: sum.splits option.splits)

text \<open>An Enum source whose items come as an array, with names that differ, loads, and
  its members are the declared items in the order of the declaration.\<close>

lemma Map_set_fresh: "k \<notin> fst ` set m \<Longrightarrow> Map_set k v m = m @ [(k, v)]"
  by (induction m) auto

lemma forEachItem_distinct:
  assumes "JUndefined \<notin> set itemList"
    and "distinct (map (\<lambda>item. field item ''Name'') itemList)"
    and "\<forall>item \<in> set itemList. field item ''Name'' \<notin> fst ` set items"
  shows "forEachItem itemList items =
    Inr (items @ map (\<lambda>item. (field item ''Name'', js_Number (field item ''Value''))) itemList)"
  using assms
proof (induction itemList arbitrary: items)
  case Nil
  show ?case by simp
next
  case (Cons item rest)
  then have i: "item \<noteq> JUndefined" by auto
  from Cons.prems have fresh: "field item ''Name'' \<notin> fst ` set items" by simp
  have "forEachItem rest (items @ [(field item ''Name'', js_Number (field item ''Value''))]) =
      Inr ((items @ [(field item ''Name'', js_Number (field item ''Value''))])
           @ map (\<lambda>item. (field item ''Name'', js_Number (field item ''Value''))) rest)"
    using Cons.prems by (intro Cons.IH) (auto simp: image_iff)
  with i fresh show ?case
    by (simp add: js_get_field Map_set_fresh)
qed

lemma processEnumStructure_item_list:
  assumes "map_of doc ''Enum'' = Some (JObject enum)"
    and "map_of enum ''Item'' = Some (JArray itemList)"
    and "JUndefined \<notin> set itemList"
    and "distinct (map (\<lambda>item. field item ''Name'') itemList)"
  shows "processEnumStructure (JObject doc) =
    Inr (Enum (field (JObject enum) ''Name'')
           (map (\<lambda>item. (field item ''Name'', js_Number (field item ''Value''))) itemList))"
  using assms forEachItem_distinct[of itemList "[]"]
  by (simp add: processEnumStructure_def field_def split: option.splits)

section \<open>The schema loader\<close>

text \<open>
  C9. Property classification looks at \<^verbatim>\<open>SubType\<close> first when \<^verbatim>\<open>Type\<close> is \<^verbatim>\<open>Object\<close>: the
  sub-type \<^verbatim>\<open>Brush\<close> gives the kind Brush, \<^verbatim>\<open>ImageSource\<close> the kind Image (with the
  declared source path), \<^verbatim>\<open>FontFamily\<close> the kind Font, and every other sub-type name
  gives the kind Object carrying only the final dot-separated segment of the name.
\<close>

theorem processProperty_Object_dispatch:
  assumes "map_of kvs ''Type'' = Some (JString ''Object'')"
    and "map_of kvs ''SubType'' = Some (JString s)"
    and "s \<noteq> []"
  shows "processProperty (JObject kvs) =
     Inr (if s = ''Brush'' then PBrush
          else if s = ''ImageSource'' then
            PImage (case map_of kvs ''ImageSourcePath'' of None \<Rightarrow> JUndefined | Some p \<Rightarrow> p)
          else if s = ''FontFamily'' then PFont
          else PObject (JString (finalSegment s)))"
  using assms
  by (auto simp: processProperty_def lastPart_def splitOn_nonempty finalSegment_def last_splitOn
      split: option.splits)

theorem processProperty_Object_dispatch_witness:
  "processProperty (JObject [(''Name'', JString ''Hero''), (''Type'', JString ''Object''),
      (''SubType'', JString ''Game.Model.Card'')]) = Inr (PObject (JString ''Card''))"
  using processProperty_Object_dispatch[of "[(''Name'', JString ''Hero''),
      (''Type'', JString ''Object''), (''SubType'', JString ''Game.Model.Card'')]"
      "''Game.Model.Card''"]
  by (simp add: finalSegment_def)

text \<open>
  C3. An Enum source with a single \<^verbatim>\<open>Item\<close> child: the parser, which is run without
  \<^verbatim>\<open>explicitArray\<close>, gives the one item as an object and not as an array, and
  \<^verbatim>\<open>processEnumStructure\<close> calls \<^verbatim>\<open>forEach\<close> on it. The load of the file
  \<^verbatim>\<open><Enum Name="Suit"><Item Name="Hearts" Value="0"/></Enum>\<close> ends with a
  \<^verbatim>\<open>TypeError\<close> and registers nothing.
\<close>

theorem readStructures_single_Item_throws:
  "readStructures [(''Suit.xml'', JObject [(''Enum'', JObject [(''Name'', JString ''Suit''),
      (''Item'', JObject [(''Name'', JString ''Hearts''), (''Value'', JNumber ''0'')])])])]
   = ([], Inl TypeError)"
  by (simp add: readStructures_def readStructure_def processEnumStructure_def endsWith_def)

text \<open>
  C8. The registry holds every name at most once. The built-in types and enums are in it
  before the first schema file is read, and a registration under a name that is already
  there, a built-in's name included, replaces the entry: after the load a name resolves
  to the last structure registered under it, and to the built-in entry when no file
  registered it.
\<close>

theorem readStructures_registry:
  assumes "readStructures structureFiles = (log, Inr structures)"
  shows "distinct (filter primitive (map fst structures))
    \<and> (\<forall>n. Map_get structures n =
          (case lastRegistration n (registrations structureFiles) of
             Some s \<Rightarrow> Some s
           | None \<Rightarrow> Map_get (addBuiltInEnums (addBuiltInTypes [])) n))
    \<and> (\<forall>n \<in> set NoesisBuiltInSubTypes.
          Map_get (addBuiltInEnums (addBuiltInTypes [])) n = Some (BuiltIn (JString n)))
    \<and> (\<forall>(n, items) \<in> set NoesisBuiltInEnums.
          Map_get (addBuiltInEnums (addBuiltInTypes [])) n
            = Some (Enum (JString n) (builtInItems items 0 [])))"
proof (intro conjI)
  have "distinct (filter primitive (map fst (addBuiltInEnums (addBuiltInTypes []))))"
    unfolding addBuiltInEnums_def addBuiltInTypes_def
    by (intro distinct_addEnums distinct_addTypes) simp
  with assms show "distinct (filter primitive (map fst structures))"
    unfolding readStructures_def by (rule distinct_readFiles)
  from assms show "\<forall>n. Map_get structures n =
          (case lastRegistration n (registrations structureFiles) of
             Some s \<Rightarrow> Some s
           | None \<Rightarrow> Map_get (addBuiltInEnums (addBuiltInTypes [])) n)"
    unfolding readStructures_def by (simp add: Map_get_readFiles)
  show "\<forall>n \<in> set NoesisBuiltInSubTypes.
          Map_get (addBuiltInEnums (addBuiltInTypes [])) n = Some (BuiltIn (JString n))"
    by (simp add: addBuiltInEnums_def addBuiltInTypes_def NoesisBuiltInSubTypes_def
        NoesisBuiltInEnums_def Map_get_Map_set del: Map_set.simps builtInItems.simps)
  show "\<forall>(n, items) \<in> set NoesisBuiltInEnums.
          Map_get (addBuiltInEnums (addBuiltInTypes [])) n
            = Some (Enum (JString n) (builtInItems items 0 []))"
    by (simp add: addBuiltInEnums_def addBuiltInTypes_def NoesisBuiltInSubTypes_def
        NoesisBuiltInEnums_def Map_get_Map_set del: Map_set.simps builtInItems.simps)
qed

theorem readStructures_registry_witness:
  "\<exists>log structures. readStructures exampleFiles = (log, Inr structures)
     \<and> Map_get structures ''Card'' = Some (Class (JString ''Card'') [(JString ''Power'', PBoolean)])
     \<and> Map_get structures ''Single'' = Some (Class (JString ''Single'') [(JString ''On'', PBoolean)])
     \<and> Map_get structures ''Color'' = Some (BuiltIn (JString ''Color''))"
proof -
  have "\<exists>log structures. readStructures exampleFiles = (log, Inr structures)"
    by (simp add: exampleFiles_def readStructures_def readStructure_def processClassStructure_def
        tryProperty_def processProperty_def endsWith_def del: Map_set.simps)
  then obtain log structures where r: "readStructures exampleFiles = (log, Inr structures)"
    by blast
  have regs: "registrations exampleFiles =
      [Class (JString ''Card'') [(JString ''Title'', PString JUndefined JUndefined)],
       Class (JString ''Card'') [(JString ''Power'', PBoolean)],
       Class (JString ''Single'') [(JString ''On'', PBoolean)]]"
    by (simp add: exampleFiles_def registrations_def readStructure_def processClassStructure_def
        tryProperty_def processProperty_def endsWith_def)
  have b: "Map_get (addBuiltInEnums (addBuiltInTypes [])) ''Color'' = Some (BuiltIn (JString ''Color''))"
    by (simp add: addBuiltInEnums_def addBuiltInTypes_def NoesisBuiltInSubTypes_def
        NoesisBuiltInEnums_def Map_get_Map_set del: Map_set.simps builtInItems.simps)
  from readStructures_registry[OF r] have
    "\<forall>n. Map_get structures n =
          (case lastRegistration n (registrations exampleFiles) of
             Some s \<Rightarrow> Some s
           | None \<Rightarrow> Map_get (addBuiltInEnums (addBuiltInTypes [])) n)"
    by blast
  with r regs b show ?thesis
    by (simp add: lastRegistration_def)
qed

text \<open>
  C4. A Class source whose property declarations are all present as nodes, at any
  round of the loop over the schema files: the class is registered with the kinds of
  exactly those declarations that can be classified, each under its name; every other
  declaration, and so every declaration with an unrecognized \<^verbatim>\<open>Type\<close>, is left out and
  logged with its name, the name of the class and its error; and the load goes on with
  the files that are left.
\<close>

theorem unrecognized_type_dropped:
  assumes "endsWith f ''.xml''"
    and "map_of doc ''Class'' = Some (JObject cls)"
    and "JUndefined \<notin> set (declarations (field (JObject cls) ''Property''))"
  shows "readFiles ((f, JObject doc) # rest) structures =
        (case readFiles rest
                (Map_set (field (JObject cls) ''Name'')
                   (Class (field (JObject cls) ''Name'')
                      (remainingProperties (declarations (field (JObject cls) ''Property''))))
                   structures) of
           (l, r) \<Rightarrow>
             (propertyErrors (field (JObject cls) ''Name'')
                (declarations (field (JObject cls) ''Property'')) @ l, r))
    \<and> (\<forall>p \<in> set (declarations (field (JObject cls) ''Property'')). \<not> recognizedType p \<longrightarrow>
          \<not> classifiable p
          \<and> ErrorProcessingProperty (field p ''Name'') (field (JObject cls) ''Name'')
                 (propertyError p)
               \<in> set (propertyErrors (field (JObject cls) ''Name'')
                        (declarations (field (JObject cls) ''Property''))))"
proof
  from assms(2) have
    "processClassStructure (JObject doc)
       = (propertyErrors (field (JObject cls) ''Name'')
            (declarations (field (JObject cls) ''Property'')),
          Inr (Class (field (JObject cls) ''Name'')
                 (remainingProperties (declarations (field (JObject cls) ''Property'')))))"
    by (simp add: processClassStructure_declarations forEachProperty_classifiable[OF assms(3)]
        remainingProperties_def)
  with assms(1,2) show
    "readFiles ((f, JObject doc) # rest) structures =
        (case readFiles rest
                (Map_set (field (JObject cls) ''Name'')
                   (Class (field (JObject cls) ''Name'')
                      (remainingProperties (declarations (field (JObject cls) ''Property''))))
                   structures) of
           (l, r) \<Rightarrow>
             (propertyErrors (field (JObject cls) ''Name'')
                (declarations (field (JObject cls) ''Property'')) @ l, r))"
    by (simp add: readStructure_def del: Map_set.simps)
  show "\<forall>p \<in> set (declarations (field (JObject cls) ''Property'')). \<not> recognizedType p \<longrightarrow>
          \<not> classifiable p
          \<and> ErrorProcessingProperty (field p ''Name'') (field (JObject cls) ''Name'')
                 (propertyError p)
               \<in> set (propertyErrors (field (JObject cls) ''Name'')
                        (declarations (field (JObject cls) ''Property'')))"
    by (auto simp: classifiable_def propertyErrors_def)
qed

theorem unrecognized_type_dropped_witness:
  "readStructures [(''Card.xml'', JObject [(''Class'', JObject exampleClass)])] =
        ([ErrorProcessingProperty (JString ''Glow'') (JString ''Card'')
            (Error ''Unknown property type: Shader'')],
         Inr (Map_set (JString ''Card'')
                (Class (JString ''Card'')
                   [(JString ''Title'', PString JUndefined JUndefined),
                    (JString ''Power'', PNumber (JNumber ''0'') JUndefined JUndefined),
                    (JString ''Owner'', PObject (JString ''Player'')),
                    (JString ''Tags'', PCollection (JString ''String''))])
                (addBuiltInEnums (addBuiltInTypes []))))"
proof -
  have d: "declarations (field (JObject exampleClass) ''Property'') =
        [JObject [(''Name'', JString ''Title''), (''Type'', JString ''String'')],
         JObject [(''Name'', JString ''Glow''), (''Type'', JString ''Shader'')],
         JObject [(''Name'', JString ''Power''), (''Type'', JString ''Number''),
                  (''NumberMinValue'', JNumber ''0'')],
         JObject [(''Name'', JString ''Owner''), (''Type'', JString ''Object''),
                  (''SubType'', JString ''Game.Player'')],
         JObject [(''Name'', JString ''Tags''), (''Type'', JString ''Collection''),
                  (''SubType'', JString ''String'')]]"
    and n: "field (JObject exampleClass) ''Name'' = JString ''Card''"
    by (simp_all add: exampleClass_def field_def declarations_def)
  have "endsWith ''Card.xml'' ''.xml''"
    and "map_of [(''Class'', JObject exampleClass)] ''Class'' = Some (JObject exampleClass)"
    and "JUndefined \<notin> set (declarations (field (JObject exampleClass) ''Property''))"
    by (simp_all add: endsWith_def d)
  from unrecognized_type_dropped[OF this, of "[]" "addBuiltInEnums (addBuiltInTypes [])"]
  have "readFiles [(''Card.xml'', JObject [(''Class'', JObject exampleClass)])]
          (addBuiltInEnums (addBuiltInTypes [])) =
        (propertyErrors (JString ''Card'')
           (declarations (field (JObject exampleClass) ''Property'')),
         Inr (Map_set (JString ''Card'')
                (Class (JString ''Card'')
                   (remainingProperties (declarations (field (JObject exampleClass) ''Property''))))
                (addBuiltInEnums (addBuiltInTypes []))))"
    unfolding n by (simp del: Map_set.simps readFiles.simps(2))
  moreover have "remainingProperties (declarations (field (JObject exampleClass) ''Property''))
      = [(JString ''Title'', PString JUndefined JUndefined),
         (JString ''Power'', PNumber (JNumber ''0'') JUndefined JUndefined),
         (JString ''Owner'', PObject (JString ''Player'')),
         (JString ''Tags'', PCollection (JString ''String''))]"
    unfolding d
    by (simp add: remainingProperties_def classifiable_def recognizedType_def usableSubType_def
        propertyKind_def subTypeSegment_def finalSegment_def field_def)
  moreover have "propertyErrors (JString ''Card'')
        (declarations (field (JObject exampleClass) ''Property''))
      = [ErrorProcessingProperty (JString ''Glow'') (JString ''Card'')
            (Error ''Unknown property type: Shader'')]"
    unfolding d
    by (simp add: propertyErrors_def classifiable_def recognizedType_def usableSubType_def
        propertyError_def field_def)
  ultimately show ?thesis
    by (simp add: readStructures_def del: Map_set.simps readFiles.simps(2))
qed

section \<open>The type emitter\<close>

text \<open>
  C7. For every Enum of the registry, the emitted text holds its declaration: the two
  header lines, then one member line per item in the order of insertion, whose value is
  the name of the member as a string literal, then the closing line. The member lines
  are built from the names alone, never from the numbers stored with them.
\<close>

theorem enum_declaration:
  assumes "(k, Enum name items) \<in> set structures"
  shows "\<exists>before after. outputTypes structures indentLevel =
      before
      @ [''// Definition for enum '' @ toStr name @ ''\<newline>'',
         ''export enum '' @ toStr name @ '' {\<newline>'']
      @ map (\<lambda>itemName. spaces indentLevel @ dquote @ toStr itemName @ dquote @ '' = ''
                @ dquote @ toStr itemName @ dquote @ '',\<newline>'') (map fst items)
      @ [''}\<newline>\<newline>'']
      @ after"
proof -
  from assms obtain xs ys where s: "structures = xs @ (k, Enum name items) # ys"
    by (auto simp: in_set_conv_decomp)
  have m: "map (\<lambda>(itemName, v). spaces indentLevel @ dquote @ toStr itemName @ dquote @ '' = ''
                @ dquote @ toStr itemName @ dquote @ '',\<newline>'') items
      = map (\<lambda>itemName. spaces indentLevel @ dquote @ toStr itemName @ dquote @ '' = ''
                @ dquote @ toStr itemName @ dquote @ '',\<newline>'') (map fst items)"
    by (induction items) auto
  show ?thesis
    unfolding s outputTypes_def
    apply (simp only: map_append concat_append list.map concat.simps prod.case writeStructure.simps m)
    apply (rule exI, rule exI)
    apply (simp only: append_assoc[symmetric])
    done
qed

theorem enum_declaration_witness:
  "\<exists>before after.
     outputTypes [(JString ''Suit'',
        Enum (JString ''Suit'') [(JString ''Hearts'', JNumber ''7''), (JString ''Spades'', JNumber ''9'')])] 2 =
      before
      @ [''// Definition for enum Suit\<newline>'', ''export enum Suit {\<newline>'',
         ''  '' @ dquote @ ''Hearts'' @ dquote @ '' = '' @ dquote @ ''Hearts'' @ dquote @ '',\<newline>'',
         ''  '' @ dquote @ ''Spades'' @ dquote @ '' = '' @ dquote @ ''Spades'' @ dquote @ '',\<newline>'',
         ''}\<newline>\<newline>'']
      @ after"
  using enum_declaration[of "JString ''Suit''" "JString ''Suit''"
      "[(JString ''Hearts'', JNumber ''7''), (JString ''Spades'', JNumber ''9'')]"
      "[(JString ''Suit'',
        Enum (JString ''Suit'') [(JString ''Hearts'', JNumber ''7''), (JString ''Spades'', JNumber ''9'')])]" 2]
  by (simp add: spaces_def numeral_2_eq_2)

section \<open>The data transformer\<close>

text \<open>
  C6. An Image property. When the field is absent, that is when the read of the
  property name on the data node gives nothing (a name that the node inherits gives the
  inherited member), the value is the empty string literal. When the field is present
  and its first element is a string, the value is the piece
  between the first and the second semicolon of that string (up to the end when there is
  no second one), with the first occurrence of \<^verbatim>\<open>component/\<close> removed wherever it
  stands, in double quotes; when the string has no semicolon, or nothing is left of the
  piece, the value is the empty string literal and a warning is logged.
\<close>

theorem image_value:
  assumes "js_lookup members data (toStr propName) = Inr propValue"
  shows "(\<not> truthy propValue \<longrightarrow>
            propertyValue members structures subIndent structureName propName (PImage path) data indentLevel
              = ([], Inr (dquote @ dquote)))
       \<and> (truthy propValue \<and> js_get0 propValue = Inr (JString s) \<longrightarrow>
            propertyValue members structures subIndent structureName propName (PImage path) data indentLevel
              = (if CHR '';'' \<in> set s \<and> replaceFirst ''component/'' [] (secondSegment s) \<noteq> []
                 then ([], Inr (dquote @ replaceFirst ''component/'' [] (secondSegment s) @ dquote))
                 else ([WarnImagePathNotFound propName structureName (JString s)],
                       Inr (dquote @ dquote))))"
proof -
  from assms have "data \<noteq> JUndefined" by (auto simp: js_lookup_def)
  then have "js_get data (structureName @ ''.'' @ toStr propName)
      = Inr (field data (structureName @ ''.'' @ toStr propName))"
    by (rule js_get_field)
  with assms show ?thesis
    by (simp add: propertyValue.simps imagePath_string)
qed

theorem image_value_witness:
  "propertyValue exampleMembers [] ''  '' ''Card'' (JString ''Icon'') (PImage JUndefined)
      (JObject [(''Icon'', JArray [JString ''pack;component/images/icon.png''])]) 2
    = ([], Inr (dquote @ ''images/icon.png'' @ dquote))
   \<and> propertyValue exampleMembers [] ''  '' ''Card'' (JString ''Icon'') (PImage JUndefined) (JObject []) 2
    = ([], Inr (dquote @ dquote))"
  using image_value[where members=exampleMembers
      and data="JObject [(''Icon'', JArray [JString ''pack;component/images/icon.png''])]"
      and propName="JString ''Icon''"
      and propValue="JArray [JString ''pack;component/images/icon.png'']"
      and structures="[]" and subIndent="''  ''" and structureName="''Card''"
      and path=JUndefined and indentLevel=2 and s="''pack;component/images/icon.png''"]
    image_value[where members=exampleMembers and data="JObject []"
      and propName="JString ''Icon''" and propValue=JUndefined
      and structures="[]" and subIndent="''  ''" and structureName="''Card''"
      and path=JUndefined and indentLevel=2 and s="[]"]
  by (simp add: secondSegment_def startsWith_def js_lookup_def exampleMembers_def)

text \<open>On a raw value with a second semicolon the emitted path stops there, where the
  remainder after the first semicolon goes on.\<close>

theorem image_second_delimiter_counterexample:
  "propertyValue exampleMembers [] ''  '' ''Card'' (JString ''Icon'') (PImage JUndefined)
      (JObject [(''Icon'', JArray [JString ''pack;component/images/a;b.png''])]) 2
    = ([], Inr (dquote @ ''images/a'' @ dquote))
   \<and> propertyValue exampleMembers [] ''  '' ''Card'' (JString ''Icon'') (PImage JUndefined)
      (JObject [(''Icon'', JArray [JString ''pack;component/images/a;b.png''])]) 2
    \<noteq> ([], Inr (dquote @ claimedImagePath ''pack;component/images/a;b.png'' @ dquote))"
  by (simp add: propertyValue.simps imagePath_def startsWith_def claimedImagePath_def dquote_def
      js_lookup_def exampleMembers_def)

text \<open>
  C1. A data file whose root element name does not resolve, by its final dot-separated
  segment, to an entry of the registry, at any round of the loop over the data files: the
  error is logged and the encoding of the file is the empty text, the data module of the
  file is written all the same, with nothing after the equals sign of its constant, and
  the loop goes on with the files that are left.
\<close>

theorem unknown_root_type:
  assumes "parsed f = (root, node) # others"
    and "Map_get structures (finalSegment root) = None"
  shows "forEachDataFile members structures parsed (f # rest) indentLevel =
      (case forEachDataFile members structures parsed rest indentLevel of
         (written, log, x) \<Rightarrow>
           ((replaceFirst ''.xaml'' ''.ts'' f,
             [''// Auto-generated data context from Noesis data set: '' @ f @ ''\<newline>\<newline>'',
              ''import { '' @ join '', '' (map elementStr (importNames structures)) @ '' } from ''
                @ dquote @ ''./NoesisTypes'' @ dquote @ '';\<newline>\<newline>'',
              ''export const dataContext: '' @ root @ '' = ;\<newline>'']) # written,
            UnknownStructureTypeForData (finalSegment root) # log, x))"
  using assms
  by (simp add: processDataStructure.simps last_splitOn finalSegment_def
      dataModule_def split: prod.splits)

theorem unknown_root_type_witness:
  "outputDataSets exampleMembers [(JString ''Card'', Class (JString ''Card'') [(JString ''Title'', PString JUndefined JUndefined)])]
      exampleSets [''card.xaml'', ''deck.xaml'', ''readme.md'', ''hand.xaml''] None 2
    = ([(''card.ts'',
         [''// Auto-generated data context from Noesis data set: card.xaml\<newline>\<newline>'',
          ''import { Card } from '' @ dquote @ ''./NoesisTypes'' @ dquote @ '';\<newline>\<newline>'',
          ''export const dataContext: Card = {\<newline>  Title: '' @ dquote @ ''Ace'' @ dquote
            @ '',\<newline>};\<newline>'']),
        (''deck.ts'',
         [''// Auto-generated data context from Noesis data set: deck.xaml\<newline>\<newline>'',
          ''import { Card } from '' @ dquote @ ''./NoesisTypes'' @ dquote @ '';\<newline>\<newline>'',
          ''export const dataContext: Deck = ;\<newline>'']),
        (''hand.ts'',
         [''// Auto-generated data context from Noesis data set: hand.xaml\<newline>\<newline>'',
          ''import { Card } from '' @ dquote @ ''./NoesisTypes'' @ dquote @ '';\<newline>\<newline>'',
          ''export const dataContext: Card = {\<newline>  Title: '' @ dquote @ ''Ace'' @ dquote
            @ '',\<newline>};\<newline>''])],
       [UnknownStructureTypeForData ''Deck''], None)"
  using unknown_root_type[where members=exampleMembers and parsed=exampleSets
      and f="''deck.xaml''" and root="''Deck''"
      and node="JObject [(''Title'', JArray [JString ''Ace''])]" and others="[]"
      and structures="[(JString ''Card'', Class (JString ''Card'') [(JString ''Title'', PString JUndefined JUndefined)])]"
      and rest="[''hand.xaml'']" and indentLevel=2]
  by (simp add: outputDataSets_def dataFiles_def endsWith_def finalSegment_def
      processDataStructure.simps
      propertyValue.simps startsWith_def elementStr_def dataModule_def spaces_def numeral_2_eq_2
      exampleSets_def js_lookup_def exampleMembers_def)

text \<open>With the registry of the built-ins alone, the file \<^verbatim>\<open>deck.xaml\<close> with the unknown
  root \<^verbatim>\<open>Deck\<close> gets its module \<^verbatim>\<open>deck.ts\<close>.\<close>

theorem unknown_root_module_written_counterexample:
  "outputDataSets exampleMembers (addBuiltInEnums (addBuiltInTypes []))
      exampleSets [''deck.xaml''] None 2
    = ([(''deck.ts'',
         [''// Auto-generated data context from Noesis data set: deck.xaml\<newline>\<newline>'',
          ''import { Visibility, Orientation, HorizontalAlignment, VerticalAlignment, TextAlignment, TextWrapping, TextTrimming, FlowDirection, FontFamily } from ''
             @ dquote @ ''./NoesisTypes'' @ dquote @ '';\<newline>\<newline>'',
          ''export const dataContext: Deck = ;\<newline>''])],
       [UnknownStructureTypeForData ''Deck''], None)"
  by (simp add: outputDataSets_def dataFiles_def endsWith_def processDataStructure.simps
      addBuiltInEnums_def addBuiltInTypes_def NoesisBuiltInEnums_def NoesisBuiltInSubTypes_def
      startsWith_def elementStr_def dataModule_def exampleSets_def)

text \<open>
  C5. A Collection property of a data node. When the wrapper field is absent the value
  is the empty sequence. When it is present, the declared sub-type goes through the alias
  table to give the element tag; if the wrapper has no array under that tag, the value is
  the empty sequence and a warning is logged; if it has one and every element encodes,
  the value is the sequence literal of the encoded elements in their order, and the log
  is the logs of the elements in that order.
\<close>

theorem collection_value:
  assumes "data \<noteq> JUndefined"
  shows "(\<not> truthy (field data (structureName @ ''.'' @ toStr propName)) \<longrightarrow>
            propertyValue members structures subIndent structureName propName (PCollection (JString subType))
              data indentLevel
            = ([], Inr ''[]''))
       \<and> (truthy (field data (structureName @ ''.'' @ toStr propName))
          \<and> js_get0 (field data (structureName @ ''.'' @ toStr propName)) = Inr wrapper
          \<and> wrapper \<noteq> JUndefined \<and> \<not> isArray (lookupField members wrapper (elementTag subType)) \<longrightarrow>
            propertyValue members structures subIndent structureName propName (PCollection (JString subType))
              data indentLevel
            = ([WarnExpectedArray propName (JString (elementTag subType)) structureName data],
               Inr ''[]''))
       \<and> (truthy (field data (structureName @ ''.'' @ toStr propName))
          \<and> js_get0 (field data (structureName @ ''.'' @ toStr propName)) = Inr wrapper
          \<and> lookupField members wrapper (elementTag subType) = JArray items
          \<and> list_all2 (\<lambda>item (l, out).
                processDataStructure members structures (subIndent @ spaces indentLevel)
                  (JString (elementTag subType)) item indentLevel = (l, Inr out)) items results \<longrightarrow>
            propertyValue members structures subIndent structureName propName (PCollection (JString subType))
              data indentLevel
            = (concat (map fst results),
               Inr (''[\<newline>''
                    @ concat (map (\<lambda>(l, out). (subIndent @ spaces indentLevel) @ out @ '',\<newline>'')
                               results)
                    @ subIndent @ '']'')))"
proof (intro conjI impI)
  note g = js_get_field[OF assms] js_lookup_field[OF assms]
  {
    assume "\<not> truthy (field data (structureName @ ''.'' @ toStr propName))"
    then show "propertyValue members structures subIndent structureName propName
        (PCollection (JString subType)) data indentLevel = ([], Inr ''[]'')"
      by (simp add: propertyValue.simps g)
  next
    assume a: "truthy (field data (structureName @ ''.'' @ toStr propName))
          \<and> js_get0 (field data (structureName @ ''.'' @ toStr propName)) = Inr wrapper
          \<and> wrapper \<noteq> JUndefined \<and> \<not> isArray (lookupField members wrapper (elementTag subType))"
    then have "js_lookup members wrapper (elementTag subType) = Inr (lookupField members wrapper (elementTag subType))"
      by (simp add: js_lookup_field)
    with a show "propertyValue members structures subIndent structureName propName
        (PCollection (JString subType)) data indentLevel
        = ([WarnExpectedArray propName (JString (elementTag subType)) structureName data],
           Inr ''[]'')"
      by (cases "lookupField members wrapper (elementTag subType)")
        (simp_all add: propertyValue.simps g converter_elementTag)
  next
    assume a: "truthy (field data (structureName @ ''.'' @ toStr propName))
          \<and> js_get0 (field data (structureName @ ''.'' @ toStr propName)) = Inr wrapper
          \<and> lookupField members wrapper (elementTag subType) = JArray items
          \<and> list_all2 (\<lambda>item (l, out).
                processDataStructure members structures (subIndent @ spaces indentLevel)
                  (JString (elementTag subType)) item indentLevel = (l, Inr out)) items results"
    then have "wrapper \<noteq> JUndefined" by (auto simp: lookupField_def js_lookup_def)
    then have "js_lookup members wrapper (elementTag subType) = Inr (lookupField members wrapper (elementTag subType))"
      by (simp add: js_lookup_field)
    with a processArray_all[where members=members and structures=structures
        and indent=subIndent and indentLevel=indentLevel
        and itemType="JString (elementTag subType)" and items=items and results=results]
    show "propertyValue members structures subIndent structureName propName
        (PCollection (JString subType)) data indentLevel
        = (concat (map fst results),
           Inr (''[\<newline>''
                @ concat (map (\<lambda>(l, out). (subIndent @ spaces indentLevel) @ out @ '',\<newline>'')
                           results)
                @ subIndent @ '']''))"
      by (simp add: propertyValue.simps g converter_elementTag)
  }
qed

theorem collection_value_witness:
  "propertyValue exampleMembers [(JString ''SolidColorBrush'', BuiltIn (JString ''SolidColorBrush''))] ''  ''
      ''Palette'' (JString ''Colors'') (PCollection (JString ''Brush'')) (JObject []) 2
     = ([], Inr ''[]'')
   \<and> propertyValue exampleMembers [(JString ''SolidColorBrush'', BuiltIn (JString ''SolidColorBrush''))] ''  ''
      ''Palette'' (JString ''Colors'') (PCollection (JString ''Brush''))
      (JObject [(''Palette.Colors'', JArray [JString []])]) 2
     = ([WarnExpectedArray (JString ''Colors'') (JString ''SolidColorBrush'') ''Palette''
           (JObject [(''Palette.Colors'', JArray [JString []])])], Inr ''[]'')
   \<and> propertyValue exampleMembers [(JString ''SolidColorBrush'', BuiltIn (JString ''SolidColorBrush''))] ''  ''
      ''Palette'' (JString ''Colors'') (PCollection (JString ''Brush'')) examplePalette 2
     = ([], Inr (''[\<newline>    '' @ dquote @ ''#FF0000'' @ dquote @ '',\<newline>    '' @ dquote @ ''#00FF00''
                 @ dquote @ '',\<newline>  ]''))"
proof -
  let ?S = "[(JString ''SolidColorBrush'', BuiltIn (JString ''SolidColorBrush''))]"
  have a: "JObject [] \<noteq> JUndefined"
    and b: "JObject [(''Palette.Colors'', JArray [JString []])] \<noteq> JUndefined"
    and c: "examplePalette \<noteq> JUndefined"
    by (simp_all add: examplePalette_def)
  have items: "list_all2 (\<lambda>item (l, out).
      processDataStructure exampleMembers ?S (''  '' @ spaces 2) (JString (elementTag ''Brush'')) item 2
        = (l, Inr out))
      [JObject [(''Color'', JArray [JString ''#FF0000''])],
       JObject [(''Color'', JArray [JString ''#00FF00''])]]
      [([], dquote @ ''#FF0000'' @ dquote), ([], dquote @ ''#00FF00'' @ dquote)]"
    by (simp add: processDataStructure.simps builtInValue_def elementTag_def aliasTable_def)
  from collection_value[OF a, where members=exampleMembers and structureName="''Palette''" and propName="JString ''Colors''"
      and structures="?S" and subIndent="''  ''" and subType="''Brush''" and indentLevel=2]
    collection_value[OF b, where members=exampleMembers and structureName="''Palette''" and propName="JString ''Colors''"
      and structures="?S" and subIndent="''  ''" and subType="''Brush''" and indentLevel=2
      and wrapper="JString []"]
    collection_value[OF c, where members=exampleMembers and structureName="''Palette''" and propName="JString ''Colors''"
      and structures="?S" and subIndent="''  ''" and subType="''Brush''" and indentLevel=2
      and wrapper="JObject [(''SolidColorBrush'', JArray
         [JObject [(''Color'', JArray [JString ''#FF0000''])],
          JObject [(''Color'', JArray [JString ''#00FF00''])]])]"
      and items="[JObject [(''Color'', JArray [JString ''#FF0000''])],
        JObject [(''Color'', JArray [JString ''#00FF00''])]]"
      and results="[([], dquote @ ''#FF0000'' @ dquote), ([], dquote @ ''#00FF00'' @ dquote)]"]
    items
  show ?thesis
    by (simp add: field_def lookupField_def js_lookup_def exampleMembers_def examplePalette_def
        elementTag_def aliasTable_def spaces_def numeral_2_eq_2)
qed



text \<open>A field under an inherited name is not absent. For a property that is called
  \<^verbatim>\<open>constructor\<close> the read gives the function that every node inherits: a Number
  property then prints the first element of the function, which is \<^verbatim>\<open>undefined\<close>, and a
  String property throws when it escapes that element.\<close>

lemma inherited_member_is_read:
  "propertyValue exampleMembers structures subIndent ''Card'' (JString ''constructor'')
      (PNumber lo hi d) (JObject [(''Title'', JArray [JString ''Ace''])]) indentLevel
     = ([], Inr ''undefined'')
   \<and> propertyValue exampleMembers structures subIndent ''Card'' (JString ''constructor'')
      (PString lo hi) (JObject [(''Title'', JArray [JString ''Ace''])]) indentLevel
     = ([], Inl TypeError)
   \<and> fieldValue exampleMembers ''Card'' (JString ''constructor'') (PNumber lo hi d)
      (JObject [(''Title'', JArray [JString ''Ace''])])
     = JNative ''function Object() { [native code] }''"
  by (simp add: propertyValue.simps js_lookup_def lookupField_def exampleMembers_def)

section \<open>The recorded bounds\<close>

text \<open>
  C10. The word-count bounds of String properties and the minimum, maximum and decimal
  count of Number properties, which the loader records, influence no output: two
  registries that differ in these fields only give the same type declarations and, for
  every set of data files, the same data modules, the same log and the same exception.
\<close>

theorem bounds_never_influence_output:
  assumes "eraseRegistry structures = eraseRegistry structures'"
  shows "outputTypes structures indentLevel = outputTypes structures' indentLevel
     \<and> outputDataSets members structures parsed listing setName indentLevel
       = outputDataSets members structures' parsed listing setName indentLevel"
proof
  have "outputTypes structures indentLevel = outputTypes (eraseRegistry structures) indentLevel"
    by (simp add: outputTypes_erase)
  also have "\<dots> = outputTypes structures' indentLevel"
    by (simp add: assms outputTypes_erase)
  finally show "outputTypes structures indentLevel = outputTypes structures' indentLevel" .
  have "outputDataSets members structures parsed listing setName indentLevel
      = outputDataSets members (eraseRegistry structures) parsed listing setName indentLevel"
    by (simp add: outputDataSets_def forEachDataFile_erase)
  also have "\<dots> = outputDataSets members structures' parsed listing setName indentLevel"
    by (simp add: assms outputDataSets_def forEachDataFile_erase)
  finally show "outputDataSets members structures parsed listing setName indentLevel
       = outputDataSets members structures' parsed listing setName indentLevel" .
qed

theorem bounds_never_influence_output_witness:
  "outputTypes
      [(JString ''Card'', Class (JString ''Card'')
         [(JString ''Title'', PString (JNumber ''1'') (JNumber ''5'')),
          (JString ''Power'', PNumber (JNumber ''0'') (JNumber ''9'') (JNumber ''2''))])] 2
    = outputTypes
      [(JString ''Card'', Class (JString ''Card'')
         [(JString ''Title'', PString JUndefined (JNumber ''3'')),
          (JString ''Power'', PNumber (JNumber ''-5'') JUndefined JUndefined)])] 2
   \<and> outputDataSets exampleMembers
      [(JString ''Card'', Class (JString ''Card'')
         [(JString ''Title'', PString (JNumber ''1'') (JNumber ''5'')),
          (JString ''Power'', PNumber (JNumber ''0'') (JNumber ''9'') (JNumber ''2''))])]
      exampleCard
      [''card.xaml''] None 2
    = outputDataSets exampleMembers
      [(JString ''Card'', Class (JString ''Card'')
         [(JString ''Title'', PString JUndefined (JNumber ''3'')),
          (JString ''Power'', PNumber (JNumber ''-5'') JUndefined JUndefined)])]
      exampleCard
      [''card.xaml''] None 2"
  by (rule bounds_never_influence_output) (simp add: eraseRegistry_def)

end
